theory Spec2Isabelle
  imports Complex_Main "HOL-Library.Word"
begin

section \<open>Python values, exceptions and small string helpers\<close>

text \<open>
  The exceptions that the modelled code raises, catches or lets through, each
  with its message.  The \<open>Httpx\<close> constructors are classes of the HTTP
  client library: a connect error, the family of timeouts, and two transport
  errors that belong to neither of these families.  \<open>HTTPException\<close> carries
  the status code and the detail.
\<close>

datatype exc =
    FileNotFoundError string
  | RuntimeError string
  | TimeoutError string
  | TimeoutExpired nat
  | HttpxConnectError string
  | HttpxTimeoutException string
  | HttpxReadError string
  | HttpxRemoteProtocolError string
  | AttributeError string
  | IndexError string
  | KeyError string
  | TypeError string
  | ValueError string
  | UnicodeDecodeError string
  | UnicodeEncodeError string
  | OverflowError string
  | IntegrityError string
  | OtherException string
  | HTTPException nat string

text \<open>\<open>str(n)\<close> for an integer.\<close>

fun str_nat :: "nat \<Rightarrow> string" where
  "str_nat n = (if n < 10 then [''0123456789'' ! n]
                else str_nat (n div 10) @ [''0123456789'' ! (n mod 10)])"

declare str_nat.simps [simp del]

definition str_int :: "int \<Rightarrow> string" where
  "str_int i = (if i < 0 then CHR ''-'' # str_nat (nat (- i)) else str_nat (nat i))"

fun is_connect_error :: "exc \<Rightarrow> bool" where
  "is_connect_error (HttpxConnectError msg) = True"
| "is_connect_error e = False"

fun is_timeout_exception :: "exc \<Rightarrow> bool" where
  "is_timeout_exception (HttpxTimeoutException msg) = True"
| "is_timeout_exception e = False"

fun is_http_exception :: "exc \<Rightarrow> bool" where
  "is_http_exception (HTTPException code detail) = True"
| "is_http_exception e = False"

text \<open>
  \<open>str(e)\<close>.  For \<open>TimeoutExpired\<close> the command text of the message is left
  out; for \<open>HTTPException\<close> it is the status code and the detail.
\<close>

fun exc_str :: "exc \<Rightarrow> string" where
  "exc_str (FileNotFoundError s) = s"
| "exc_str (RuntimeError s) = s"
| "exc_str (TimeoutError s) = s"
| "exc_str (TimeoutExpired t) = ''timed out after '' @ str_nat t @ '' seconds''"
| "exc_str (HttpxConnectError s) = s"
| "exc_str (HttpxTimeoutException s) = s"
| "exc_str (HttpxReadError s) = s"
| "exc_str (HttpxRemoteProtocolError s) = s"
| "exc_str (AttributeError s) = s"
| "exc_str (IndexError s) = s"
| "exc_str (KeyError s) = s"
| "exc_str (TypeError s) = s"
| "exc_str (ValueError s) = s"
| "exc_str (UnicodeDecodeError s) = s"
| "exc_str (UnicodeEncodeError s) = s"
| "exc_str (OverflowError s) = s"
| "exc_str (IntegrityError s) = s"
| "exc_str (OtherException s) = s"
| "exc_str (HTTPException code detail) = str_nat code @ '': '' @ detail"

definition no_attribute :: "string \<Rightarrow> string \<Rightarrow> string" where
  "no_attribute ty attr = [CHR 39] @ ty @ [CHR 39] @ '' object has no attribute '' @ [CHR 39] @ attr @ [CHR 39]"

section \<open>Process supervisor: \<open>LlamaServerManager\<close> (models.py)\<close>

text \<open>
  A \<open>subprocess.Popen\<close> handle.  \<open>returncode\<close> is what \<open>poll()\<close> reports:
  \<open>None\<close> while the child is alive.  \<open>stderr_text\<close> is the decoded content
  of the captured stderr pipe, \<open>args\<close> the command line.
\<close>

record popen =
  pid :: nat
  args :: "string list"
  returncode :: "int option"
  stderr_text :: string

record llama_manager =
  binary_path :: string
  model_path :: string
  port :: nat
  process :: "popen option"
  start_time :: "real option"

text \<open>The outcome of one HTTP request: a response with its status code, or an exception.\<close>

datatype http_outcome = Response nat | Raises exc

definition is_running :: "llama_manager \<Rightarrow> bool" where
  "is_running m = (case process m of None \<Rightarrow> False | Some p \<Rightarrow> returncode p = None)"

definition manager_pid :: "llama_manager \<Rightarrow> nat option" where
  "manager_pid m = (if is_running m then map_option pid (process m) else None)"

text \<open>
  \<open>uptime_seconds\<close>: the test \<open>self._start_time\<close> is a truth test, so a start
  time of exactly \<open>0.0\<close> counts as absent.
\<close>

definition uptime_seconds :: "real \<Rightarrow> llama_manager \<Rightarrow> real option" where
  "uptime_seconds now m =
     (case start_time m of
        None \<Rightarrow> None
      | Some t \<Rightarrow> if is_running m \<and> t \<noteq> 0 then Some (now - t) else None)"

record llama_status =
  installed :: bool
  running :: bool
  status_model_path :: string
  status_pid :: "nat option"
  status_uptime :: "real option"

text \<open>\<open>get_status\<close>; the two \<open>os.path.isfile\<close> answers and the clock are inputs.\<close>

definition get_status :: "bool \<Rightarrow> bool \<Rightarrow> real \<Rightarrow> llama_manager \<Rightarrow> llama_status" where
  "get_status binary_is_file model_is_file now m =
     \<lparr>installed = (binary_is_file \<and> model_is_file),
      running = is_running m,
      status_model_path = model_path m,
      status_pid = manager_pid m,
      status_uptime = uptime_seconds now m\<rparr>"

text \<open>
  \<open>health_check\<close>.  The request is made only when the process is running; of
  the exceptions of the request only \<open>httpx.ConnectError\<close> and
  \<open>httpx.TimeoutException\<close> are caught, every other one leaves the function.
\<close>

definition health_check :: "http_outcome \<Rightarrow> llama_manager \<Rightarrow> exc + bool" where
  "health_check req m =
     (if \<not> is_running m then Inr False
      else case req of
             Response code \<Rightarrow> Inr (code = 200)
           | Raises e \<Rightarrow>
               if is_connect_error e \<or> is_timeout_exception e then Inr False
               else Inl e)"

text \<open>
  \<open>stop\<close>.  \<open>graceful\<close> says whether a live child exits within the 10 s wait
  after \<open>terminate()\<close>, \<open>killed\<close> whether it exits within the 5 s wait after
  \<open>kill()\<close>.  \<open>wait\<close> on a child that has already exited returns at once.
  The second wait is not guarded: its \<open>TimeoutExpired\<close> leaves the function
  before the two fields are cleared.
\<close>

record stop_env =
  graceful :: bool
  killed :: bool

definition cleared :: "llama_manager \<Rightarrow> llama_manager" where
  "cleared m = m\<lparr>process := None, start_time := None\<rparr>"

definition stop :: "stop_env \<Rightarrow> llama_manager \<Rightarrow> (exc + unit) \<times> llama_manager" where
  "stop e m =
     (case process m of
        None \<Rightarrow> (Inr (), m)
      | Some p \<Rightarrow>
          if returncode p \<noteq> None then (Inr (), cleared m)
          else if graceful e then (Inr (), cleared m)
          else if killed e then (Inr (), cleared m)
          else (Inl (TimeoutExpired 5), m))"

text \<open>
  One iteration of the readiness loop observes the clock, whether the child has
  exited by now (with its exit code and what it wrote to stderr) and the outcome
  of the health request.
\<close>

record tick =
  now :: real
  exit_status :: "(int \<times> string) option"
  health :: http_outcome

definition child_exit :: "(int \<times> string) option \<Rightarrow> popen \<Rightarrow> popen" where
  "child_exit ex p =
     (case ex of
        None \<Rightarrow> p
      | Some (rc, err) \<Rightarrow>
          if returncode p = None then p\<lparr>returncode := Some rc, stderr_text := err\<rparr> else p)"

definition stderr_excerpt :: "string \<Rightarrow> string" where
  "stderr_excerpt err = take 500 err"

definition exit_message :: "int \<Rightarrow> string \<Rightarrow> string" where
  "exit_message rc err =
     ''llama-server exited with code '' @ str_int rc @ '': '' @ stderr_excerpt err"

definition timeout_message :: "nat \<Rightarrow> string" where
  "timeout_message timeout = ''llama-server failed to start within '' @ str_nat timeout @ ''s''"

text \<open>
  \<open>_wait_for_ready\<close>: the loop runs over the observations of its iterations.
  When the observations run out before the loop has left, the result is
  \<open>None\<close>.  Only \<open>httpx.ConnectError\<close> is caught around the request.
\<close>

fun wait_loop :: "nat \<Rightarrow> real \<Rightarrow> llama_manager \<Rightarrow> tick list \<Rightarrow> ((exc + unit) \<times> llama_manager) option" where
  "wait_loop timeout deadline m [] = None"
| "wait_loop timeout deadline m (t # ts) =
     (if \<not> now t < deadline then Some (Inl (TimeoutError (timeout_message timeout)), m)
      else case process m of
             None \<Rightarrow> Some (Inl (AttributeError (no_attribute ''NoneType'' ''poll'')), m)
           | Some p0 \<Rightarrow>
               let p = child_exit (exit_status t) p0;
                   m1 = m\<lparr>process := Some p\<rparr>
               in case returncode p of
                    Some rc \<Rightarrow> Some (Inl (RuntimeError (exit_message rc (stderr_text p))), m1)
                  | None \<Rightarrow>
                      (case health t of
                         Response code \<Rightarrow>
                           if code = 200 then Some (Inr (), m1)
                           else wait_loop timeout deadline m1 ts
                       | Raises e \<Rightarrow>
                           if is_connect_error e then wait_loop timeout deadline m1 ts
                           else Some (Inl e, m1)))"

definition wait_for_ready :: "nat \<Rightarrow> real \<Rightarrow> llama_manager \<Rightarrow> tick list \<Rightarrow> ((exc + unit) \<times> llama_manager) option" where
  "wait_for_ready timeout t0 m ts = wait_loop timeout (t0 + real timeout) m ts"

text \<open>\<open>_optimal_threads\<close>: \<open>max(1, (os.cpu_count() or 4) // 2)\<close>.\<close>

definition optimal_threads :: "nat option \<Rightarrow> nat" where
  "optimal_threads cpu_count =
     max 1 ((case cpu_count of None \<Rightarrow> 4 | Some c \<Rightarrow> if c = 0 then 4 else c) div 2)"

text \<open>
  What \<open>start\<close> reads from its surroundings: the two file tests, the core
  count, the pid of the spawned child, the clock at the spawn and at the start
  of the polling, the observations of the polling loop, and the behaviour of
  the child under \<open>stop\<close>.
\<close>

record start_env =
  binary_is_file :: bool
  model_is_file :: bool
  cpu_count :: "nat option"
  spawned_pid :: nat
  spawn_time :: real
  poll_start :: real
  ticks :: "tick list"
  stopping :: stop_env

definition command :: "llama_manager \<Rightarrow> nat \<Rightarrow> nat \<Rightarrow> string list" where
  "command m thread_count context_size =
     [binary_path m, ''-m'', model_path m, ''--host'', ''127.0.0.1'',
      ''--port'', str_nat (port m), ''-t'', str_nat thread_count,
      ''-c'', str_nat context_size, ''--log-disable'']"

text \<open>
  \<open>start\<close>.  \<open>threads or self._optimal_threads()\<close> takes the default also
  for \<open>threads = 0\<close>.  Only \<open>TimeoutError\<close> triggers the cleanup by \<open>stop\<close>;
  an exception of \<open>stop\<close> itself replaces the timeout.
\<close>

definition start :: "start_env \<Rightarrow> nat option \<Rightarrow> nat \<Rightarrow> llama_manager \<Rightarrow> ((exc + unit) \<times> llama_manager) option" where
  "start env threads context_size m =
     (if is_running m then Some (Inr (), m)
      else if \<not> binary_is_file env then
        Some (Inl (FileNotFoundError (''llama-server binary not found: '' @ binary_path m)), m)
      else if \<not> model_is_file env then
        Some (Inl (FileNotFoundError (''Model file not found: '' @ model_path m)), m)
      else
        let thread_count = (case threads of
                              None \<Rightarrow> optimal_threads (cpu_count env)
                            | Some n \<Rightarrow> if n = 0 then optimal_threads (cpu_count env) else n);
            p = \<lparr>pid = spawned_pid env, args = command m thread_count context_size,
                 returncode = None, stderr_text = []\<rparr>;
            m1 = m\<lparr>process := Some p, start_time := Some (spawn_time env)\<rparr>
        in case wait_for_ready 120 (poll_start env) m1 (ticks env) of
             None \<Rightarrow> None
           | Some (Inr u, m2) \<Rightarrow> Some (Inr (), m2)
           | Some (Inl e, m2) \<Rightarrow>
               (case e of
                  TimeoutError msg \<Rightarrow>
                    (case stop (stopping env) m2 of
                       (Inr u, m3) \<Rightarrow> Some (Inl e, m3)
                     | (Inl e', m3) \<Rightarrow> Some (Inl e', m3))
                | _ \<Rightarrow> Some (Inl e, m2)))"

text \<open>A tick at which the loop goes on: in time, child alive, engine not ready yet.\<close>

definition pending :: "real \<Rightarrow> tick \<Rightarrow> bool" where
  "pending deadline t =
     (now t < deadline \<and> exit_status t = None \<and>
      (case health t of Response code \<Rightarrow> code \<noteq> 200 | Raises e \<Rightarrow> is_connect_error e))"

section \<open>Strings and dynamically typed values\<close>

text \<open>
  Characters that \<open>str.strip()\<close> and \<open>str.split()\<close> treat as whitespace, among
  the one-byte characters.
\<close>

definition is_space :: "char \<Rightarrow> bool" where
  "is_space c = (c \<in> set [CHR 0x09, CHR 0x0A, CHR 0x0B, CHR 0x0C, CHR 0x0D,
                          CHR 0x1C, CHR 0x1D, CHR 0x1E, CHR 0x1F, CHR 0x20, CHR 0x85, CHR 0xA0])"

definition strip :: "string \<Rightarrow> string" where
  "strip s = rev (dropWhile is_space (rev (dropWhile is_space s)))"

text \<open>\<open>s.strip(chars)\<close> with an explicit character set.\<close>

definition strip_chars :: "string \<Rightarrow> string \<Rightarrow> string" where
  "strip_chars cs s = rev (dropWhile (\<lambda>c. c \<in> set cs) (rev (dropWhile (\<lambda>c. c \<in> set cs) s)))"

text \<open>\<open>s.split()\<close>: the maximal runs of non-whitespace characters.\<close>

fun split_acc :: "string \<Rightarrow> string \<Rightarrow> string list" where
  "split_acc w [] = (if w = [] then [] else [rev w])"
| "split_acc w (c # cs) =
     (if is_space c then (if w = [] then split_acc [] cs else rev w # split_acc [] cs)
      else split_acc (c # w) cs)"

definition py_split :: "string \<Rightarrow> string list" where
  "py_split s = split_acc [] s"

text \<open>\<open>sep.join(xs)\<close>.\<close>

fun join :: "string \<Rightarrow> string list \<Rightarrow> string" where
  "join sep [] = []"
| "join sep [x] = x"
| "join sep (x # y # ys) = x @ sep @ join sep (y # ys)"

definition lower_char :: "char \<Rightarrow> char" where
  "lower_char c =
     (case map_of (zip ''ABCDEFGHIJKLMNOPQRSTUVWXYZ'' ''abcdefghijklmnopqrstuvwxyz'') c of
        Some l \<Rightarrow> l
      | None \<Rightarrow> c)"

definition lower :: "string \<Rightarrow> string" where
  "lower s = map lower_char s"

text \<open>
  A Python value as \<open>json.loads\<close> and the vision engine produce it: \<open>None\<close>,
  a bool, an int, a float, a str, a list, or a dict with string keys (an
  association list in which the first entry of a key counts).
\<close>

datatype json =
    JNull
  | JBool bool
  | JInt int
  | JFloat real
  | JStr string
  | JArr "json list"
  | JObj "(string \<times> json) list"

fun truthy :: "json \<Rightarrow> bool" where
  "truthy JNull = False"
| "truthy (JBool b) = b"
| "truthy (JInt i) = (i \<noteq> 0)"
| "truthy (JFloat x) = (x \<noteq> 0)"
| "truthy (JStr s) = (s \<noteq> [])"
| "truthy (JArr xs) = (xs \<noteq> [])"
| "truthy (JObj kvs) = (kvs \<noteq> [])"

fun type_name :: "json \<Rightarrow> string" where
  "type_name JNull = ''NoneType''"
| "type_name (JBool b) = ''bool''"
| "type_name (JInt i) = ''int''"
| "type_name (JFloat x) = ''float''"
| "type_name (JStr s) = ''str''"
| "type_name (JArr xs) = ''list''"
| "type_name (JObj kvs) = ''dict''"

text \<open>\<open>d.get(key, default)\<close> on a dict.\<close>

definition dict_get :: "(string \<times> json) list \<Rightarrow> string \<Rightarrow> json \<Rightarrow> json" where
  "dict_get d k dflt = (case map_of d k of Some v \<Rightarrow> v | None \<Rightarrow> dflt)"

text \<open>\<open>v.get(key, default)\<close> on any value: only a dict has the method.\<close>

definition value_get :: "json \<Rightarrow> string \<Rightarrow> json \<Rightarrow> exc + json" where
  "value_get v k dflt =
     (case v of
        JObj d \<Rightarrow> Inr (dict_get d k dflt)
      | _ \<Rightarrow> Inl (AttributeError (no_attribute (type_name v) ''get'')))"

text \<open>\<open>v[0]\<close>.\<close>

definition subscript0 :: "json \<Rightarrow> exc + json" where
  "subscript0 v =
     (case v of
        JArr xs \<Rightarrow> (case xs of [] \<Rightarrow> Inl (IndexError ''list index out of range'') | x # _ \<Rightarrow> Inr x)
      | JStr s \<Rightarrow> (case s of [] \<Rightarrow> Inl (IndexError ''string index out of range'') | c # _ \<Rightarrow> Inr (JStr [c]))
      | JObj d \<Rightarrow> Inl (KeyError ''0'')
      | _ \<Rightarrow> Inl (TypeError ([CHR 39] @ type_name v @ [CHR 39] @ '' object is not subscriptable'')))"

text \<open>\<open>v[key]\<close> with a string key.\<close>

definition subscript_key :: "json \<Rightarrow> string \<Rightarrow> exc + json" where
  "subscript_key v k =
     (case v of
        JObj d \<Rightarrow> (case map_of d k of Some x \<Rightarrow> Inr x | None \<Rightarrow> Inl (KeyError ([CHR 39] @ k @ [CHR 39])))
      | JArr xs \<Rightarrow> Inl (TypeError ''list indices must be integers or slices, not str'')
      | JStr s \<Rightarrow> Inl (TypeError (''string indices must be integers, not '' @ [CHR 39] @ ''str'' @ [CHR 39]))
      | _ \<Rightarrow> Inl (TypeError ([CHR 39] @ type_name v @ [CHR 39] @ '' object is not subscriptable'')))"

section \<open>Floats\<close>

text \<open>
  A Python float is an IEEE binary64 value: a finite one is the real number it
  stands for, and the two infinities are values of their own (no operation
  below produces a NaN).  \<open>to_double\<close> rounds a real to the nearest
  binary64 value, a tie to the even significand: \<open>exponent\<close> finds the
  binade of the magnitude by halving or doubling, subnormals share the
  exponent \<open>-1022\<close>, and a magnitude that rounds beyond the largest finite
  value becomes an infinity.
\<close>

datatype pyfloat = Finite real | PosInf | NegInf

definition round_half_even :: "real \<Rightarrow> int" where
  "round_half_even x =
     (let n = \<lfloor>x\<rfloor>; f = x - of_int n
      in if f < 1 / 2 then n
         else if 1 / 2 < f then n + 1
         else if even n then n
         else n + 1)"

fun normalise :: "nat \<Rightarrow> real \<Rightarrow> int \<Rightarrow> int" where
  "normalise n x e =
     (if n = 0 then e
      else if 2 \<le> x then normalise (n - 1) (x / 2) (e + 1)
      else if x < 1 then normalise (n - 1) (x * 2) (e - 1)
      else e)"

declare normalise.simps [simp del]

definition exponent :: "real \<Rightarrow> int" where
  "exponent x = normalise 2200 x 0"

definition pow2 :: "int \<Rightarrow> real" where
  "pow2 k = (if 0 \<le> k then 2 ^ nat k else 1 / 2 ^ nat (- k))"

definition to_double :: "real \<Rightarrow> pyfloat" where
  "to_double x =
     (if x = 0 then Finite 0
      else let a = \<bar>x\<bar>;
               e = max (exponent a) (- 1022);
               m = round_half_even (a / pow2 (e - 52))
           in if 1024 \<le> e \<or> (e = 1023 \<and> 2 ^ 53 \<le> m) then (if 0 < x then PosInf else NegInf)
              else Finite ((if 0 < x then 1 else - 1) * of_int m * pow2 (e - 52)))"

text \<open>
  \<open>round(x, ndigits)\<close> on a float: the decimal with \<open>ndigits\<close> places that
  is nearest to the exact value of \<open>x\<close> (a tie to the even last digit),
  then the float nearest to that decimal.  An infinity rounds to itself.
\<close>

definition py_round :: "pyfloat \<Rightarrow> nat \<Rightarrow> pyfloat" where
  "py_round v ndigits =
     (case v of
        Finite x \<Rightarrow> to_double (of_int (round_half_even (x * 10 ^ ndigits)) / 10 ^ ndigits)
      | _ \<Rightarrow> v)"

text \<open>
  The arithmetic the code performs on floats: the difference of two clock
  readings, the truth of \<open>x > 0\<close>, the conversion of an int for a true
  division (it raises when the int is beyond the float range), and the
  division of a finite float by a positive one.
\<close>

definition fsub :: "real \<Rightarrow> real \<Rightarrow> pyfloat" where
  "fsub a b = to_double (a - b)"

fun is_positive :: "pyfloat \<Rightarrow> bool" where
  "is_positive (Finite x) = (0 < x)"
| "is_positive PosInf = True"
| "is_positive NegInf = False"

definition float_div :: "real \<Rightarrow> pyfloat \<Rightarrow> pyfloat" where
  "float_div a d = (case d of Finite x \<Rightarrow> to_double (a / x) | _ \<Rightarrow> Finite 0)"

definition int_to_float :: "nat \<Rightarrow> exc + real" where
  "int_to_float n =
     (case to_double (real n) of
        Finite a \<Rightarrow> Inr a
      | _ \<Rightarrow> Inl (OverflowError ''int too large to convert to float''))"

section \<open>Storage: \<open>Database\<close> (database.py)\<close>

text \<open>
  The tables as lists of rows in insertion order.  Timestamps are clock
  readings; identifiers come from \<open>uuid4\<close> and are inputs of the operations.
\<close>

record conversation_row =
  c_id :: string
  c_title :: string
  c_created_at :: real
  c_updated_at :: real

record message =
  m_id :: string
  m_conversation_id :: string
  m_role :: string
  m_content :: string
  m_has_document :: bool
  m_document_name :: "string option"
  m_document_type :: "string option"
  m_created_at :: real

record cached_document =
  d_id :: string
  d_file_hash :: string
  d_original_name :: string
  d_extracted_text :: string
  d_extraction_method :: string
  d_metadata :: "(string \<times> json) list"
  d_created_at :: real

record database =
  conversations :: "conversation_row list"
  messages :: "message list"
  document_cache :: "cached_document list"
  model_log :: "(string \<times> string \<times> string option) list"

record conversation =
  conv_id :: string
  title :: string
  created_at :: real
  updated_at :: real
  message_count :: nat
  has_documents :: bool

definition count_messages :: "database \<Rightarrow> string \<Rightarrow> nat" where
  "count_messages db cid = length (filter (\<lambda>m. m_conversation_id m = cid) (messages db))"

definition has_documents_query :: "database \<Rightarrow> string \<Rightarrow> bool" where
  "has_documents_query db cid =
     (0 < length (filter (\<lambda>m. m_conversation_id m = cid \<and> m_has_document m) (messages db)))"

definition get_conversation :: "database \<Rightarrow> string \<Rightarrow> conversation option" where
  "get_conversation db cid =
     (case find (\<lambda>r. c_id r = cid) (conversations db) of
        None \<Rightarrow> None
      | Some r \<Rightarrow>
          Some \<lparr>conv_id = c_id r, title = c_title r, created_at = c_created_at r,
                updated_at = c_updated_at r, message_count = count_messages db cid,
                has_documents = has_documents_query db cid\<rparr>)"

definition touch_conversation :: "real \<Rightarrow> string \<Rightarrow> database \<Rightarrow> database" where
  "touch_conversation t cid db =
     db\<lparr>conversations :=
          map (\<lambda>r. if c_id r = cid then r\<lparr>c_updated_at := t\<rparr> else r) (conversations db)\<rparr>"

definition update_conversation :: "real \<Rightarrow> string \<Rightarrow> string \<Rightarrow> database \<Rightarrow> database" where
  "update_conversation t cid new_title db =
     db\<lparr>conversations :=
          map (\<lambda>r. if c_id r = cid then r\<lparr>c_title := new_title, c_updated_at := t\<rparr> else r)
            (conversations db)\<rparr>"

text \<open>
  \<open>save_message\<close> with the defaults of the document fields, as \<open>chat\<close>
  calls it.  \<open>enc\<close> says which texts the driver can encode as UTF-8 for the
  parameter binding (a Python str may hold a lone surrogate, which it cannot);
  the foreign key of \<open>messages\<close> is enforced, so the insert fails when the
  conversation does not exist.
\<close>

definition save_message ::
  "(string \<Rightarrow> bool) \<Rightarrow> string \<Rightarrow> real \<Rightarrow> string \<Rightarrow> string \<Rightarrow> string \<Rightarrow> database
     \<Rightarrow> exc + database" where
  "save_message enc new_id t cid r c db =
     (if \<not> enc c then Inl (UnicodeEncodeError ''surrogates not allowed'')
      else if find (\<lambda>row. c_id row = cid) (conversations db) = None then
        Inl (IntegrityError ''FOREIGN KEY constraint failed'')
      else
        Inr (touch_conversation t cid
          (db\<lparr>messages := messages db @
               [\<lparr>m_id = new_id, m_conversation_id = cid, m_role = r, m_content = c,
                 m_has_document = False, m_document_name = None, m_document_type = None,
                 m_created_at = t\<rparr>]\<rparr>)))"

text \<open>
  \<open>get_messages\<close>: \<open>ORDER BY created_at ASC LIMIT ?\<close>.  The sort is stable,
  so rows of equal timestamp stay in insertion order.
\<close>

definition get_messages :: "database \<Rightarrow> string \<Rightarrow> nat \<Rightarrow> message list" where
  "get_messages db cid limit =
     take limit (sort_key m_created_at (filter (\<lambda>m. m_conversation_id m = cid) (messages db)))"

definition get_cached_document :: "database \<Rightarrow> string \<Rightarrow> cached_document option" where
  "get_cached_document db h = find (\<lambda>d. d_file_hash d = h) (document_cache db)"

text \<open>\<open>cache_document\<close>: the column \<open>file_hash\<close> is \<open>UNIQUE\<close>.\<close>

definition cache_document ::
  "string \<Rightarrow> real \<Rightarrow> string \<Rightarrow> string \<Rightarrow> string \<Rightarrow> string \<Rightarrow> (string \<times> json) list \<Rightarrow> database
     \<Rightarrow> exc + (cached_document \<times> database)" where
  "cache_document new_id t h name text method meta db =
     (case find (\<lambda>d. d_file_hash d = h) (document_cache db) of
        Some d \<Rightarrow> Inl (IntegrityError ''UNIQUE constraint failed: document_cache.file_hash'')
      | None \<Rightarrow>
          let rec = \<lparr>d_id = new_id, d_file_hash = h, d_original_name = name,
                     d_extracted_text = text, d_extraction_method = method,
                     d_metadata = meta, d_created_at = t\<rparr>
          in Inr (rec, db\<lparr>document_cache := document_cache db @ [rec]\<rparr>))"

definition log_model_event :: "string \<Rightarrow> string \<Rightarrow> string option \<Rightarrow> database \<Rightarrow> database" where
  "log_model_event name event details db = db\<lparr>model_log := model_log db @ [(name, event, details)]\<rparr>"

section \<open>Streaming chat proxy: \<open>chat\<close> and \<open>stream_response\<close> (main.py)\<close>

datatype event =
    Start string
  | Token string
  | Done string nat pyfloat
  | Error string

text \<open>How the line iterator of the engine's response ends: normally, or with an exception.\<close>

datatype stream_end = EndOfStream | StreamRaises exc

text \<open>
  The token of one decoded chunk:
  \<open>chunk.get("choices", [{}])[0].get("delta", {}).get("content", "")\<close>.
\<close>

definition chunk_token :: "json \<Rightarrow> exc + json" where
  "chunk_token chunk =
     (case value_get chunk ''choices'' (JArr [JObj []]) of
        Inl e \<Rightarrow> Inl e
      | Inr choices \<Rightarrow>
          (case subscript0 choices of
             Inl e \<Rightarrow> Inl e
           | Inr choice \<Rightarrow>
               (case value_get choice ''delta'' (JObj []) of
                  Inl e \<Rightarrow> Inl e
                | Inr delta \<Rightarrow> value_get delta ''content'' (JStr []))))"

text \<open>
  The loop over the lines of the response.  \<open>loads\<close> is \<open>json.loads\<close>, with
  \<open>None\<close> for \<open>JSONDecodeError\<close>.  The result is the token events emitted and
  either the exception that left the loop or the accumulated response with
  the token count.  A truthy token that is not a str fails in
  \<open>full_response += token\<close>.
\<close>

fun stream_lines ::
  "(string \<Rightarrow> json option) \<Rightarrow> string list \<Rightarrow> stream_end \<Rightarrow> string \<Rightarrow> nat
     \<Rightarrow> event list \<times> (exc + string \<times> nat)" where
  "stream_lines loads [] fin full n =
     ([], case fin of EndOfStream \<Rightarrow> Inr (full, n) | StreamRaises e \<Rightarrow> Inl e)"
| "stream_lines loads (line # ls) fin full n =
     (if take 6 line = ''data: '' then
        (if strip (drop 6 line) = ''[DONE]'' then ([], Inr (full, n))
         else case loads (drop 6 line) of
                None \<Rightarrow> stream_lines loads ls fin full n
              | Some chunk \<Rightarrow>
                  (case chunk_token chunk of
                     Inl e \<Rightarrow> ([], Inl e)
                   | Inr token \<Rightarrow>
                       if truthy token then
                         (case token of
                            JStr s \<Rightarrow>
                              (case stream_lines loads ls fin (full @ s) (Suc n) of
                                 (evs, r) \<Rightarrow> (Token s # evs, r))
                          | _ \<Rightarrow>
                              ([], Inl (TypeError (''can only concatenate str (not '' @ [CHR 34]
                                         @ type_name token @ [CHR 34] @ '') to str''))))
                       else stream_lines loads ls fin full n))
      else stream_lines loads ls fin full n)"

definition error_content :: "exc \<Rightarrow> string" where
  "error_content e =
     (if is_connect_error e then ''Lost connection to Falcon3-7B. The model may have crashed.''
      else ''Error during generation: '' @ exc_str e)"

text \<open>
  \<open>_auto_title\<close>.  \<open>title_request\<close> is the outcome of the title completion:
  an exception, or the status code with the decoded body.  Every exception of
  the second branch is logged and dropped.
\<close>

datatype title_outcome = TitleRaises exc | TitleResponse nat "json option"

definition title_of_body :: "json \<Rightarrow> exc + string" where
  "title_of_body data =
     (case subscript_key data ''choices'' of
        Inl e \<Rightarrow> Inl e
      | Inr choices \<Rightarrow>
          (case subscript0 choices of
             Inl e \<Rightarrow> Inl e
           | Inr choice \<Rightarrow>
               (case subscript_key choice ''message'' of
                  Inl e \<Rightarrow> Inl e
                | Inr msg \<Rightarrow>
                    (case subscript_key msg ''content'' of
                       Inl e \<Rightarrow> Inl e
                     | Inr c \<Rightarrow>
                         (case c of
                            JStr s \<Rightarrow> Inr (strip_chars [CHR 34, CHR 39] (strip s))
                          | _ \<Rightarrow> Inl (AttributeError (no_attribute (type_name c) ''strip'')))))))"

definition auto_title :: "bool \<Rightarrow> title_outcome \<Rightarrow> real \<Rightarrow> string \<Rightarrow> string \<Rightarrow> database \<Rightarrow> database" where
  "auto_title llama_running title_request t cid first_message db =
     (if \<not> llama_running then
        let ws = take 5 (py_split first_message);
            ttl = join '' '' ws
        in update_conversation t cid (if length ws = 5 then ttl @ ''...'' else ttl) db
      else case title_request of
             TitleRaises e \<Rightarrow> db
           | TitleResponse code body \<Rightarrow>
               if code = 200 then
                 (case body of
                    None \<Rightarrow> db
                  | Some data \<Rightarrow>
                      (case title_of_body data of
                         Inl e \<Rightarrow> db
                       | Inr ttl \<Rightarrow> if ttl \<noteq> [] then update_conversation t cid (take 100 ttl) db else db))
               else db)"

text \<open>What a chat invocation reads from its surroundings.\<close>

record chat_env =
  user_message_id :: string
  user_message_time :: real
  response_id :: string
  stream_start :: real
  stream_finish :: real
  loads :: "string \<Rightarrow> json option"
  lines :: "string list"
  ending :: stream_end
  assistant_message_id :: string
  assistant_message_time :: real
  running_at_title :: bool
  title_request :: title_outcome
  title_time :: real
  encodable :: "string \<Rightarrow> bool"

text \<open>
  \<open>tps = token_count / elapsed if elapsed > 0 else 0\<close>.
\<close>

definition tokens_per_second :: "nat \<Rightarrow> pyfloat \<Rightarrow> exc + pyfloat" where
  "tokens_per_second token_count elapsed =
     (if is_positive elapsed then
        (case int_to_float token_count of
           Inl e \<Rightarrow> Inl e
         | Inr a \<Rightarrow> Inr (float_div a elapsed))
      else Inr (Finite 0))"

text \<open>
  \<open>stream_response\<close>: the events in the order of emission, the exception
  that left the generator if one did, and the database afterwards.  What
  follows the streaming loop (the rate, the write of the assistant message)
  is outside the \<open>try\<close> block: an exception there ends the generator
  before \<open>Done\<close> is emitted.
\<close>

definition stream_response ::
  "chat_env \<Rightarrow> string \<Rightarrow> string \<Rightarrow> bool \<Rightarrow> database \<Rightarrow> event list \<times> exc option \<times> database" where
  "stream_response env cid user_message is_first db =
     (case stream_lines (loads env) (lines env) (ending env) [] 0 of
        (tokens, Inl e) \<Rightarrow>
          (Start (response_id env) # tokens @ [Error (error_content e)], None, db)
      | (tokens, Inr (full_response, token_count)) \<Rightarrow>
          (case tokens_per_second token_count (fsub (stream_finish env) (stream_start env)) of
             Inl x \<Rightarrow> (Start (response_id env) # tokens, Some x, db)
           | Inr tps \<Rightarrow>
               (case (if full_response \<noteq> [] then
                        save_message (encodable env) (assistant_message_id env)
                          (assistant_message_time env) cid ''assistant'' full_response db
                      else Inr db) of
                  Inl x \<Rightarrow> (Start (response_id env) # tokens, Some x, db)
                | Inr db1 \<Rightarrow>
                    (Start (response_id env) # tokens
                       @ [Done (response_id env) token_count (py_round tps 1)],
                     None,
                     if is_first \<and> full_response \<noteq> [] then
                       auto_title (running_at_title env) (title_request env) (title_time env)
                         cid user_message db1
                     else db1))))"

record turn =
  role :: string
  content :: string

record chat_request =
  req_conversation_id :: string
  req_message :: string
  req_system_prompt :: "string option"

definition default_system_prompt :: string where
  "default_system_prompt =
     ''You are a helpful, concise AI assistant running locally on the user'' @ [CHR 39] @
     ''s machine via Fractionate Edge. You help with questions, document analysis, and general tasks.''"

text \<open>The message list of the completion request: the system entry, then the history.\<close>

definition build_messages :: "string option \<Rightarrow> message list \<Rightarrow> turn list" where
  "build_messages system_prompt history =
     \<lparr>role = ''system'',
      content = (case system_prompt of
                   None \<Rightarrow> default_system_prompt
                 | Some p \<Rightarrow> if p \<noteq> [] then p else default_system_prompt)\<rparr>
     # map (\<lambda>m. \<lparr>role = m_role m, content = m_content m\<rparr>) history"

record chat_result =
  sent_messages :: "turn list"
  events :: "event list"
  raised :: "exc option"
  db_after :: database

definition chat :: "chat_env \<Rightarrow> llama_manager \<Rightarrow> chat_request \<Rightarrow> database \<Rightarrow> exc + chat_result" where
  "chat env llama request db =
     (case get_conversation db (req_conversation_id request) of
        None \<Rightarrow> Inl (HTTPException 404 ''Conversation not found'')
      | Some conv \<Rightarrow>
          if \<not> is_running llama then
            Inl (HTTPException 503 ''Falcon3-7B is not running. Start it first.'')
          else
            (case save_message (encodable env) (user_message_id env) (user_message_time env)
                    (req_conversation_id request) ''user'' (req_message request) db of
               Inl e \<Rightarrow> Inl e
             | Inr db1 \<Rightarrow>
                 let history = get_messages db1 (req_conversation_id request) 20;
                     msgs = build_messages (req_system_prompt request) history;
                     is_first = (message_count conv \<le> 1)
                 in case stream_response env (req_conversation_id request) (req_message request)
                           is_first db1 of
                      (evs, exn, db2) \<Rightarrow>
                        Inr \<lparr>sent_messages = msgs, events = evs, raised = exn, db_after = db2\<rparr>))"

section \<open>In-process model gate: \<open>Florence2Manager\<close> (models.py)\<close>

type_synonym bytes = "8 word list"

record image =
  width :: nat
  height :: nat
  pixels :: bytes

record florence2_manager =
  florence_model_path :: string
  model :: "unit option"
  processor :: "unit option"
  is_loaded :: bool
  load_time :: "real option"

text \<open>
  What the vision engine and the document libraries do is an input of the
  model: each field is one library call, with \<open>Inl\<close> for the exception it
  raises.  \<open>fitz_pages\<close> is \<open>fitz.open\<close> followed by \<open>get_text()\<close> of every
  page; \<open>fitz_images\<close> is the rendering of every page at 150 DPI; \<open>generate\<close> is
  the two passes of \<open>process_image\<close> over one image with their post-processed
  results; \<open>py_str\<close> is \<open>str()\<close> of a value.
\<close>

record libs =
  sha256_hexdigest :: "bytes \<Rightarrow> string"
  fitz_pages :: "bytes \<Rightarrow> exc + string list"
  fitz_images :: "bytes \<Rightarrow> exc + image list"
  image_open :: "bytes \<Rightarrow> exc + image"
  docx_paragraphs :: "bytes \<Rightarrow> exc + string list"
  utf8_decode :: "bytes \<Rightarrow> string option"
  load_model :: "exc option"
  load_processor :: "exc option"
  load_clock :: real
  generate :: "image \<Rightarrow> exc + json \<times> json"
  py_str :: "json \<Rightarrow> string"

definition load :: "libs \<Rightarrow> florence2_manager \<Rightarrow> (exc + unit) \<times> florence2_manager" where
  "load l f =
     (if is_loaded f then (Inr (), f)
      else case load_model l of
             Some e \<Rightarrow> (Inl e, f)
           | None \<Rightarrow>
               (case load_processor l of
                  Some e \<Rightarrow> (Inl e, f\<lparr>model := Some ()\<rparr>)
                | None \<Rightarrow>
                    (Inr (), f\<lparr>model := Some (), processor := Some (), is_loaded := True,
                               load_time := Some (load_clock l)\<rparr>)))"

definition unload :: "florence2_manager \<Rightarrow> florence2_manager" where
  "unload f =
     (if \<not> is_loaded f then f
      else f\<lparr>model := None, processor := None, is_loaded := False, load_time := None\<rparr>)"

definition process_image :: "libs \<Rightarrow> image \<Rightarrow> florence2_manager \<Rightarrow> (exc + json \<times> json) \<times> florence2_manager" where
  "process_image l img f =
     (case (if \<not> is_loaded f then load l f else (Inr (), f)) of
        (Inl e, f1) \<Rightarrow> (Inl e, f1)
      | (Inr u, f1) \<Rightarrow> (generate l img, f1))"

section \<open>Document ingestion: \<open>upload_document\<close> (main.py)\<close>

definition compute_file_hash :: "libs \<Rightarrow> bytes \<Rightarrow> string" where
  "compute_file_hash l file_data = sha256_hexdigest l file_data"

definition page_separator :: string where
  "page_separator = [CHR 0x0A, CHR 0x0A] @ ''---'' @ [CHR 0x0A, CHR 0x0A]"

definition extract_text_pdf :: "libs \<Rightarrow> bytes \<Rightarrow> exc + string \<times> (string \<times> json) list" where
  "extract_text_pdf l file_data =
     (case fitz_pages l file_data of
        Inl e \<Rightarrow> Inl e
      | Inr pages \<Rightarrow>
          let pages_text = filter (\<lambda>t. strip t \<noteq> []) pages
          in Inr (join page_separator pages_text,
                  [(''pages'', JInt (int (length pages_text))), (''method'', JStr ''text_pdf'')]))"

definition pdf_to_images :: "libs \<Rightarrow> bytes \<Rightarrow> exc + image list" where
  "pdf_to_images l file_data = fitz_images l file_data"

text \<open>The character count of \<open>_is_scanned_pdf\<close>: every page's text is stripped before it is measured.\<close>

definition total_chars :: "string list \<Rightarrow> nat" where
  "total_chars pages = sum_list (map (\<lambda>t. length (strip t)) pages)"

definition chars_per_page :: "nat \<Rightarrow> nat \<Rightarrow> real" where
  "chars_per_page char_count page_count = real char_count / real (max page_count 1)"

text \<open>
  \<open>len(doc)\<close> on a document that has been closed: the PDF library refuses it.
\<close>

definition len_closed_document :: "nat \<Rightarrow> exc + nat" where
  "len_closed_document page_count = Inl (ValueError ''document closed'')"

text \<open>
  \<open>_is_scanned_pdf\<close>: the pages are read, the document is closed, and only
  then is its length taken for the average.
\<close>

definition is_scanned_pdf :: "libs \<Rightarrow> bytes \<Rightarrow> exc + bool" where
  "is_scanned_pdf l file_data =
     (case fitz_pages l file_data of
        Inl e \<Rightarrow> Inl e
      | Inr pages \<Rightarrow>
          (case len_closed_document (length pages) of
             Inl e \<Rightarrow> Inl e
           | Inr n \<Rightarrow> Inr (chars_per_page (total_chars pages) n < 50)))"

text \<open>\<open>_extract_caption_text\<close>: the value of the dict entry is returned as it is.\<close>

definition extract_caption_text :: "libs \<Rightarrow> json \<Rightarrow> json" where
  "extract_caption_text l caption_result =
     (case caption_result of
        JStr s \<Rightarrow> JStr s
      | JObj d \<Rightarrow> dict_get d ''<MORE_DETAILED_CAPTION>'' (JStr (py_str l caption_result))
      | _ \<Rightarrow> JStr (py_str l caption_result))"

text \<open>\<open>" ".join(labels)\<close>: a list of strs, the characters of a str, or the keys of a dict.\<close>

fun str_items :: "nat \<Rightarrow> json list \<Rightarrow> exc + string list" where
  "str_items i [] = Inr []"
| "str_items i (JStr s # xs) =
     (case str_items (i + 1) xs of Inl e \<Rightarrow> Inl e | Inr ys \<Rightarrow> Inr (s # ys))"
| "str_items i (x # xs) =
     Inl (TypeError (''sequence item '' @ str_nat i @ '': expected str instance, ''
                     @ type_name x @ '' found''))"

definition join_labels :: "json \<Rightarrow> exc + string" where
  "join_labels labels =
     (case labels of
        JArr xs \<Rightarrow>
          (case str_items 0 xs of
             Inr ss \<Rightarrow> Inr (join '' '' ss)
           | Inl e \<Rightarrow> Inl e)
      | JStr s \<Rightarrow> Inr (join '' '' (map (\<lambda>c. [c]) s))
      | JObj d \<Rightarrow> Inr (join '' '' (remdups (map fst d)))
      | _ \<Rightarrow> Inl (TypeError ''can only join an iterable''))"

definition extract_ocr_text :: "libs \<Rightarrow> json \<Rightarrow> exc + string" where
  "extract_ocr_text l ocr_result =
     (case ocr_result of
        JStr s \<Rightarrow> Inr s
      | JObj d \<Rightarrow>
          (case dict_get d ''<OCR_WITH_REGION>'' (JObj []) of
             JObj region \<Rightarrow>
               (case map_of region ''labels'' of
                  Some labels \<Rightarrow> join_labels labels
                | None \<Rightarrow> Inr (py_str l ocr_result))
           | _ \<Rightarrow> Inr (py_str l ocr_result))
      | _ \<Rightarrow> Inr (py_str l ocr_result))"

text \<open>A value inside an f-string.\<close>

definition fmt :: "libs \<Rightarrow> json \<Rightarrow> string" where
  "fmt l v = (case v of JStr s \<Rightarrow> s | _ \<Rightarrow> py_str l v)"

text \<open>
  The loop of the scanned branch over the enumerated page images; the state of
  the gate is threaded through, and the first exception ends the loop.
\<close>

fun scan_pages :: "libs \<Rightarrow> nat \<Rightarrow> image list \<Rightarrow> florence2_manager \<Rightarrow> (exc + string list) \<times> florence2_manager" where
  "scan_pages l i [] f = (Inr [], f)"
| "scan_pages l i (img # imgs) f =
     (case process_image l img f of
        (Inl e, f1) \<Rightarrow> (Inl e, f1)
      | (Inr (cap, ocr_res), f1) \<Rightarrow>
          let caption = extract_caption_text l cap
          in (case extract_ocr_text l ocr_res of
                Inl e \<Rightarrow> (Inl e, f1)
              | Inr ocr \<Rightarrow>
                  let page_text = ''[Page '' @ str_nat (i + 1) @ '']'' @ [CHR 0x0A]
                        @ (if truthy caption then ''Description: '' @ fmt l caption @ [CHR 0x0A] else [])
                        @ (if ocr \<noteq> [] then ''Text: '' @ ocr @ [CHR 0x0A] else [])
                  in (case scan_pages l (i + 1) imgs f1 of
                        (Inl e, f2) \<Rightarrow> (Inl e, f2)
                      | (Inr rest, f2) \<Rightarrow> (Inr (page_text # rest), f2))))"

definition image_extensions :: "string list" where
  "image_extensions = [''jpg'', ''jpeg'', ''png'', ''tiff'', ''tif'', ''bmp'', ''webp'']"

definition file_ext_of :: "string \<Rightarrow> string" where
  "file_ext_of filename =
     (if CHR ''.'' \<in> set filename then lower (rev (takeWhile (\<lambda>c. c \<noteq> CHR ''.'') (rev filename)))
      else [])"

text \<open>\<open>file.filename or "unknown"\<close>.\<close>

definition effective_filename :: "string option \<Rightarrow> string" where
  "effective_filename file_name =
     (case file_name of None \<Rightarrow> ''unknown'' | Some n \<Rightarrow> if n \<noteq> [] then n else ''unknown'')"

type_synonym extraction = "string \<times> string \<times> (string \<times> json) list"

text \<open>
  The body of the \<open>try\<close> block: the extracted text, the method and the
  metadata, or the exception that leaves the block.
\<close>

definition extract_document :: "libs \<Rightarrow> string \<Rightarrow> bytes \<Rightarrow> florence2_manager \<Rightarrow> (exc + extraction) \<times> florence2_manager" where
  "extract_document l file_ext file_data f =
     (if file_ext = ''pdf'' then
        (case is_scanned_pdf l file_data of
           Inl e \<Rightarrow> (Inl e, f)
         | Inr scanned \<Rightarrow>
             if scanned then
               (case pdf_to_images l file_data of
                  Inl e \<Rightarrow> (Inl e, f)
                | Inr images \<Rightarrow>
                    (case scan_pages l 0 images f of
                       (Inl e, f1) \<Rightarrow> (Inl e, f1)
                     | (Inr page_texts, f1) \<Rightarrow>
                         (Inr (join [CHR 0x0A, CHR 0x0A] page_texts, ''florence2'',
                               [(''pages'', JInt (int (length images)))]), f1)))
             else
               (case extract_text_pdf l file_data of
                  Inl e \<Rightarrow> (Inl e, f)
                | Inr (text, meta) \<Rightarrow> (Inr (text, ''text_pdf'', meta), f)))
      else if file_ext \<in> set image_extensions then
        (case image_open l file_data of
           Inl e \<Rightarrow> (Inl e, f)
         | Inr img \<Rightarrow>
             (case process_image l img f of
                (Inl e, f1) \<Rightarrow> (Inl e, f1)
              | (Inr (cap, ocr_res), f1) \<Rightarrow>
                  let caption = extract_caption_text l cap
                  in (case extract_ocr_text l ocr_res of
                        Inl e \<Rightarrow> (Inl e, f1)
                      | Inr ocr \<Rightarrow>
                          let parts = (if truthy caption then [''Description: '' @ fmt l caption] else [])
                                      @ (if ocr \<noteq> [] then [''Text: '' @ ocr] else [])
                          in (Inr (if parts \<noteq> [] then join [CHR 0x0A] parts
                                   else ''No text could be extracted from this image.'',
                                   ''florence2'',
                                   [(''width'', JInt (int (width img))), (''height'', JInt (int (height img)))]),
                              f1))))
      else if file_ext = ''docx'' then
        (case docx_paragraphs l file_data of
           Inl e \<Rightarrow> (Inl e, f)
         | Inr texts \<Rightarrow>
             let paragraphs = filter (\<lambda>t. strip t \<noteq> []) texts
             in (Inr (join [CHR 0x0A, CHR 0x0A] paragraphs, ''docx'',
                      [(''paragraphs'', JInt (int (length paragraphs)))]), f))
      else
        (case utf8_decode l file_data of
           Some text \<Rightarrow> (Inr (text, ''plaintext'', []), f)
         | None \<Rightarrow> (Inl (HTTPException 400 (''Unsupported file type: .'' @ file_ext)), f)))"

record server =
  db :: database
  florence :: florence2_manager

record document_result =
  document_id :: string
  original_name :: string
  pages :: "json option"
  extracted_text :: string
  extraction_method :: string
  metadata :: "(string \<times> json) list"
  cached :: bool
  processing_time_seconds :: pyfloat

record upload_env =
  upload_start :: real
  upload_finish :: real
  new_document_id :: string
  cache_time :: real

text \<open>The \<open>finally\<close> clause: the gate is unloaded, and the event logged, when it is loaded.\<close>

definition auto_unload :: "server \<Rightarrow> server" where
  "auto_unload s =
     (if is_loaded (florence s) then
        s\<lparr>florence := unload (florence s),
          db := log_model_event ''florence2'' ''unloaded''
                  (Some ''Auto-unload after document processing'') (db s)\<rparr>
      else s)"

text \<open>
  \<open>upload_document\<close>.  The cache is consulted before the \<open>try\<close> block, so a
  hit returns without entering it.  An \<open>HTTPException\<close> of the block is passed
  on, every other exception becomes a 500.
\<close>

definition upload_document ::
  "libs \<Rightarrow> upload_env \<Rightarrow> bytes \<Rightarrow> string option \<Rightarrow> server \<Rightarrow> (exc + document_result) \<times> server" where
  "upload_document l env file_data file_name s =
     (let file_hash = compute_file_hash l file_data;
          filename = effective_filename file_name;
          file_ext = file_ext_of filename
      in case get_cached_document (db s) file_hash of
           Some c \<Rightarrow>
             (Inr \<lparr>document_id = d_id c, original_name = d_original_name c, pages = None,
                   extracted_text = d_extracted_text c, extraction_method = d_extraction_method c,
                   metadata = d_metadata c, cached = True,
                   processing_time_seconds = py_round (fsub (upload_finish env) (upload_start env)) 2\<rparr>, s)
         | None \<Rightarrow>
             (case extract_document l file_ext file_data (florence s) of
                (Inl e, f1) \<Rightarrow>
                  (Inl (if is_http_exception e then e
                        else HTTPException 500 (''Failed to process document: '' @ exc_str e)),
                   auto_unload (s\<lparr>florence := f1\<rparr>))
              | (Inr (text, method, meta), f1) \<Rightarrow>
                  let s1 = auto_unload (s\<lparr>florence := f1\<rparr>)
                  in (case cache_document (new_document_id env) (cache_time env) file_hash filename
                             text method meta (db s1) of
                        Inl e \<Rightarrow> (Inl e, s1)
                      | Inr (doc_record, db1) \<Rightarrow>
                          (Inr \<lparr>document_id = d_id doc_record, original_name = filename,
                                pages = Some (dict_get meta ''pages'' (JInt 1)),
                                extracted_text = text, extraction_method = method,
                                metadata = meta, cached = False,
                                processing_time_seconds = py_round (fsub (upload_finish env) (upload_start env)) 2\<rparr>,
                           s1\<lparr>db := db1\<rparr>))))"

text \<open>\<open>start_model\<close> for the vision engine: \<open>POST /api/models/florence2/start\<close>.\<close>

definition start_florence :: "libs \<Rightarrow> server \<Rightarrow> (exc + string) \<times> server" where
  "start_florence l s =
     (if is_loaded (florence s) then (Inr ''already_loaded'', s)
      else case load l (florence s) of
             (Inr u, f1) \<Rightarrow>
               (Inr ''loaded'',
                s\<lparr>florence := f1, db := log_model_event ''florence2'' ''loaded'' None (db s)\<rparr>)
           | (Inl e, f1) \<Rightarrow>
               (Inl (HTTPException 500 (exc_str e)),
                s\<lparr>florence := f1, db := log_model_event ''florence2'' ''error'' (Some (exc_str e)) (db s)\<rparr>))"

fun is_token :: "event \<Rightarrow> bool" where
  "is_token (Token s) = True"
| "is_token e = False"

section \<open>Concrete inputs\<close>

definition example_manager :: llama_manager where
  "example_manager =
     \<lparr>binary_path = ''/opt/bin/llama-server'', model_path = ''/opt/models/model.gguf'',
      port = 8082, process = None, start_time = None\<rparr>"

definition running_manager :: llama_manager where
  "running_manager =
     example_manager\<lparr>process := Some \<lparr>pid = 4242, args = [], returncode = None, stderr_text = []\<rparr>,
                     start_time := Some 100\<rparr>"

definition crashed_manager :: llama_manager where
  "crashed_manager =
     example_manager\<lparr>process := Some \<lparr>pid = 4242, args = [], returncode = Some 1, stderr_text = []\<rparr>,
                     start_time := Some 100\<rparr>"

definition refused_tick :: tick where
  "refused_tick = \<lparr>now = 1000, exit_status = None, health = Raises (HttpxConnectError ''connection refused'')\<rparr>"

text \<open>A child that dies at the second poll, after writing a diagnostic, or after writing nothing.\<close>

definition crash_env :: "string \<Rightarrow> start_env" where
  "crash_env err =
     \<lparr>binary_is_file = True, model_is_file = True, cpu_count = Some 8, spawned_pid = 4242,
      spawn_time = 1000, poll_start = 1000,
      ticks = [refused_tick, \<lparr>now = 1001, exit_status = Some (1, err), health = Response 503\<rparr>],
      stopping = \<lparr>graceful = True, killed = True\<rparr>\<rparr>"

text \<open>A completion chunk that carries one content fragment, as text and as decoded value.\<close>

definition quoted :: "string \<Rightarrow> string" where
  "quoted s = [CHR 34] @ s @ [CHR 34]"

definition chunk_text :: "string \<Rightarrow> string" where
  "chunk_text s =
     ''{'' @ quoted ''choices'' @ '':[{'' @ quoted ''delta'' @ '':{'' @ quoted ''content'' @ '':''
     @ quoted s @ ''}}]}''"

definition token_chunk :: "string \<Rightarrow> json" where
  "token_chunk s = JObj [(''choices'', JArr [JObj [(''delta'', JObj [(''content'', JStr s)])]])]"

definition example_loads :: "string \<Rightarrow> json option" where
  "example_loads = map_of [(chunk_text ''Hi'', token_chunk ''Hi''), (''[]'', JArr [])]"


text \<open>A database that holds the conversation \<open>c1\<close> and no message yet.\<close>

definition talk_db :: database where
  "talk_db =
     \<lparr>conversations = [\<lparr>c_id = ''c1'', c_title = ''New Conversation'', c_created_at = 1, c_updated_at = 1\<rparr>],
      messages = [], document_cache = [], model_log = []\<rparr>"

text \<open>
  A stream of one fragment that takes three seconds, one that breaks after the
  fragment, and an error reply of the engine, whose body holds no data line.
\<close>

definition one_token_env :: chat_env where
  "one_token_env =
     \<lparr>user_message_id = ''u1'', user_message_time = 9, response_id = ''r1'',
      stream_start = 10, stream_finish = 13, loads = example_loads,
      lines = [''data: '' @ chunk_text ''Hi'', '': keep-alive'', ''data: [DONE]''],
      ending = EndOfStream, assistant_message_id = ''a1'', assistant_message_time = 13,
      running_at_title = True, title_request = TitleRaises (HttpxConnectError ''refused''),
      title_time = 14, encodable = (\<lambda>s. True)\<rparr>"



text \<open>A conversation that already holds twenty messages, and the next question put to it.\<close>

definition history_message :: "nat \<Rightarrow> message" where
  "history_message i =
     \<lparr>m_id = ''m'' @ str_nat i, m_conversation_id = ''c1'',
      m_role = (if even i then ''user'' else ''assistant''),
      m_content = (if even i then ''question'' else ''answer''),
      m_has_document = False, m_document_name = None, m_document_type = None,
      m_created_at = real i\<rparr>"

definition long_db :: database where
  "long_db = \<lparr>conversations = [\<lparr>c_id = ''c1'', c_title = ''Talk'', c_created_at = 0, c_updated_at = 19\<rparr>],
     messages = map history_message [0..<20], document_cache = [], model_log = []\<rparr>"

definition newest_request :: chat_request where
  "newest_request = \<lparr>req_conversation_id = ''c1'', req_message = ''newest question'', req_system_prompt = None\<rparr>"

text \<open>Example files, libraries and server states for the ingestion pipeline.\<close>

definition hi_bytes :: bytes where "hi_bytes = [72, 105]"

definition ok_bytes :: bytes where "ok_bytes = [79, 75]"

definition text_pdf_bytes :: bytes where "text_pdf_bytes = [37, 80, 68, 70, 1]"

definition scan_pdf_bytes :: bytes where "scan_pdf_bytes = [37, 80, 68, 70, 2]"

definition png_bytes :: bytes where "png_bytes = [137, 80, 78, 71]"

definition example_digest :: "bytes \<Rightarrow> string" where
  "example_digest b =
     (if b = hi_bytes then ''3639efcd08abb273b1619e82e78c29a7df02c1051b1820e99fc395dcaa3326b8''
      else if b = ok_bytes then ''565339bc4d33d72817b583024112eb7f5cdf3e5eef0252d6ec1b9c9a94e12bb3''
      else if b = text_pdf_bytes then ''a0716166bb20b36120b2c5693fb679dd2a3f18e942eaf3e073753bcbc525daf2''
      else if b = scan_pdf_bytes then ''bf04ab5d17e32b362e7591d56bed17f8ee8ca6f0484620f561ac20ae3d59c58f''
      else if b = png_bytes then ''0f4636c78f65d3639ece5a064b5ae753e3408614a14fb18ab4d7540d2c248543''
      else ''e3b0c44298fc1c149afbf4c8996fb92427ae41e4649b934ca495991b7852b855'')"

definition example_pages :: "bytes \<Rightarrow> exc + string list" where
  "example_pages b =
     (if b = text_pdf_bytes then
        Inr [''Hello '' @ replicate 60 (CHR ''x'') @ [CHR 0x0A], ''World '' @ replicate 60 (CHR ''y'') @ [CHR 0x0A]]
      else if b = scan_pdf_bytes then Inr [ [CHR 0x0A] ]
      else Inl (OtherException ''Failed to open stream''))"

definition example_generate :: "image \<Rightarrow> exc + json \<times> json" where
  "example_generate img =
     Inr (JObj [(''<MORE_DETAILED_CAPTION>'', JStr ''A scanned letter'')],
          JObj [(''<OCR_WITH_REGION>'', JObj [(''quad_boxes'', JArr []), (''labels'', JArr [JStr ''Dear'', JStr ''Sir''])])])"

definition example_libs :: libs where
  "example_libs =
     \<lparr>sha256_hexdigest = example_digest,
      fitz_pages = example_pages,
      fitz_images = (\<lambda>b. if b = scan_pdf_bytes then Inr [\<lparr>width = 1240, height = 1754, pixels = []\<rparr>]
                           else Inl (OtherException ''Failed to open stream'')),
      image_open = (\<lambda>b. if b = png_bytes then Inr \<lparr>width = 640, height = 480, pixels = []\<rparr>
                          else Inl (OtherException ''cannot identify image file'')),
      docx_paragraphs = (\<lambda>b. Inl (OtherException ''File is not a zip file'')),
      utf8_decode = map_of [(hi_bytes, ''Hi''), (ok_bytes, ''OK'')],
      load_model = None, load_processor = None, load_clock = 5,
      generate = example_generate,
      py_str = (\<lambda>v. ''{}'')\<rparr>"

text \<open>Libraries that can extract nothing, with the same digest.\<close>

definition idle_libs :: libs where
  "idle_libs =
     example_libs\<lparr>fitz_pages := (\<lambda>b. Inl (OtherException ''unused'')),
                  utf8_decode := (\<lambda>b. None)\<rparr>"

definition initial_server :: server where
  "initial_server =
     \<lparr>db = \<lparr>conversations = [], messages = [], document_cache = [], model_log = []\<rparr>,
      florence = \<lparr>florence_model_path = ''/opt/models/florence-2-base'', model = None,
                  processor = None, is_loaded = False, load_time = None\<rparr>\<rparr>"

definition first_upload_env :: upload_env where
  "first_upload_env = \<lparr>upload_start = 10, upload_finish = 12, new_document_id = ''doc-1'', cache_time = 12\<rparr>"

definition second_upload_env :: upload_env where
  "second_upload_env = \<lparr>upload_start = 20, upload_finish = 20, new_document_id = ''doc-2'', cache_time = 20\<rparr>"

definition hi_record :: cached_document where
  "hi_record = \<lparr>d_id = ''doc-1'', d_file_hash = ''3639efcd08abb273b1619e82e78c29a7df02c1051b1820e99fc395dcaa3326b8'',
     d_original_name = ''notes.txt'', d_extracted_text = ''Hi'', d_extraction_method = ''plaintext'',
     d_metadata = [], d_created_at = 12\<rparr>"

definition hi_server :: server where
  "hi_server = initial_server\<lparr>db := (db initial_server)\<lparr>document_cache := [hi_record]\<rparr>\<rparr>"

definition hi_result :: document_result where
  "hi_result = \<lparr>document_id = ''doc-1'', original_name = ''notes.txt'', pages = Some (JInt 1),
              extracted_text = ''Hi'', extraction_method = ''plaintext'', metadata = [],
              cached = False, processing_time_seconds = Finite 2\<rparr>"

definition ok_record :: cached_document where
  "ok_record = \<lparr>d_id = ''doc-2'', d_file_hash = ''565339bc4d33d72817b583024112eb7f5cdf3e5eef0252d6ec1b9c9a94e12bb3'',
     d_original_name = ''unknown'', d_extracted_text = ''OK'', d_extraction_method = ''plaintext'',
     d_metadata = [], d_created_at = 20\<rparr>"

definition both_server :: server where
  "both_server = initial_server\<lparr>db := (db initial_server)\<lparr>document_cache := [hi_record, ok_record]\<rparr>\<rparr>"

definition ok_result :: document_result where
  "ok_result = \<lparr>document_id = ''doc-2'', original_name = ''unknown'', pages = Some (JInt 1),
              extracted_text = ''OK'', extraction_method = ''plaintext'', metadata = [],
              cached = False, processing_time_seconds = Finite 0\<rparr>"

section \<open>Properties of the process supervisor\<close>

lemma is_running_cleared: "\<not> is_running (cleared m)"
  by (simp add: is_running_def cleared_def)

lemma wait_loop_pending:
  "list_all (pending d) pre \<Longrightarrow> process m = Some p \<Longrightarrow> returncode p = None \<Longrightarrow>
   wait_loop to d m (pre @ ts) = wait_loop to d m ts"
proof (induction pre)
  case Nil
  then show ?case by simp
next
  case (Cons a pre)
  have same: "m\<lparr>process := Some p\<rparr> = m"
    using Cons.prems(2) by simp
  from Cons.prems(1) have pa: "pending d a" and rest: "list_all (pending d) pre"
    by simp_all
  from pa have a: "now a < d" "exit_status a = None"
    and h: "(case health a of Response code \<Rightarrow> code \<noteq> 200 | Raises e \<Rightarrow> is_connect_error e)"
    by (simp_all add: pending_def)
  from Cons.IH [OF rest Cons.prems(2,3)]
  have IH: "wait_loop to d m (pre @ ts) = wait_loop to d m ts" .
  show ?case
    using a h IH Cons.prems(2,3)
    by (simp add: child_exit_def same split: http_outcome.splits)
qed

lemma wait_loop_exit:
  "process m = Some p \<Longrightarrow> returncode p = None \<Longrightarrow> now t < d \<Longrightarrow> exit_status t = Some (rc, err) \<Longrightarrow>
   wait_loop to d m (t # ts) =
     Some (Inl (RuntimeError (exit_message rc err)),
           m\<lparr>process := Some (p\<lparr>returncode := Some rc, stderr_text := err\<rparr>)\<rparr>)"
  by (simp add: child_exit_def)

lemma start_exit:
  assumes "\<not> is_running m" "binary_is_file env" "model_is_file env"
    and "ticks env = pre @ t # rest" "list_all (pending (poll_start env + 120)) pre"
    and "now t < poll_start env + 120" "exit_status t = Some (rc, err)"
  shows "\<exists>m'. start env threads ctx m = Some (Inl (RuntimeError (exit_message rc err)), m')
           \<and> \<not> is_running m'"
proof -
  define thread_count where
    "thread_count = (case threads of
                       None \<Rightarrow> optimal_threads (cpu_count env)
                     | Some n \<Rightarrow> if n = 0 then optimal_threads (cpu_count env) else n)"
  define p where
    "p = \<lparr>pid = spawned_pid env, args = command m thread_count ctx,
          returncode = None, stderr_text = []\<rparr>"
  define m1 where "m1 = m\<lparr>process := Some p, start_time := Some (spawn_time env)\<rparr>"
  define m2 where "m2 = m1\<lparr>process := Some (p\<lparr>returncode := Some rc, stderr_text := err\<rparr>)\<rparr>"
  have pm: "process m1 = Some p" "returncode p = None"
    by (simp_all add: m1_def p_def)
  have "wait_for_ready 120 (poll_start env) m1 (ticks env)
          = wait_loop 120 (poll_start env + 120) m1 (t # rest)"
    using wait_loop_pending [OF assms(5) pm] assms(4) by (simp add: wait_for_ready_def)
  also have "\<dots> = Some (Inl (RuntimeError (exit_message rc err)), m2)"
    unfolding m2_def using wait_loop_exit [OF pm assms(6,7)] .
  finally have w: "wait_for_ready 120 (poll_start env) m1 (ticks env)
                     = Some (Inl (RuntimeError (exit_message rc err)), m2)" .
  have "start env threads ctx m = Some (Inl (RuntimeError (exit_message rc err)), m2)"
    using assms(1,2,3) w
    unfolding start_def Let_def thread_count_def [symmetric] p_def [symmetric] m1_def [symmetric]
    by simp
  moreover have "\<not> is_running m2"
    by (simp add: is_running_def m2_def)
  ultimately show ?thesis by blast
qed

text \<open>
  C9 (as the code has it).  \<open>health_check\<close> answers \<open>False\<close> when the process is
  not running, \<open>False\<close> when the request fails with a connect error or a timeout,
  and for a response whether its status is 200.  Any other exception of the
  request, raised while the process is running, leaves \<open>health_check\<close>.
\<close>

theorem health_check_resolves:
  "(\<not> is_running m \<longrightarrow> health_check req m = Inr False) \<and>
   (is_connect_error e \<or> is_timeout_exception e \<longrightarrow> health_check (Raises e) m = Inr False) \<and>
   health_check (Response code) m = Inr (is_running m \<and> code = 200) \<and>
   (is_running m \<and> \<not> is_connect_error e' \<and> \<not> is_timeout_exception e'
      \<longrightarrow> health_check (Raises e') m = Inl e')"
  by (simp add: health_check_def)

theorem health_check_resolves_witness:
  "health_check (Raises (HttpxReadError ''read failed'')) example_manager = Inr False \<and>
   health_check (Raises (HttpxConnectError ''connection refused'')) running_manager = Inr False \<and>
   health_check (Raises (HttpxTimeoutException ''timed out'')) running_manager = Inr False \<and>
   health_check (Response 200) running_manager = Inr True \<and>
   health_check (Raises (OtherException ''boom'')) running_manager = Inl (OtherException ''boom'')"
  using health_check_resolves [of example_manager "Raises (HttpxReadError ''read failed'')"]
    health_check_resolves [of running_manager _ "HttpxConnectError ''connection refused''" 200
      "OtherException ''boom''"]
    health_check_resolves [of running_manager _ "HttpxTimeoutException ''timed out''"]
  by (simp add: is_running_def example_manager_def running_manager_def)

text \<open>
  C9 (as stated) fails: with the process running, a request that ends in
  \<open>httpx.ReadError\<close> makes \<open>health_check\<close> raise instead of returning a boolean.
\<close>

theorem health_check_raises_counterexample:
  "health_check (Raises (HttpxReadError ''peer closed connection'')) running_manager
     = Inl (HttpxReadError ''peer closed connection'')"
  by (simp add: health_check_def is_running_def running_manager_def example_manager_def)

text \<open>
  C7.  \<open>stop\<close> changes nothing when there is no process handle; whenever it
  returns with a handle present (the child had exited, or exits within the
  10 s of the graceful wait, or within the 5 s after the kill) the handle and
  the start timestamp are cleared; a second \<open>stop\<close> after a completed one
  changes nothing; and on an engine that is not running \<open>stop\<close> completes and
  leaves the status snapshot as it was.
\<close>

theorem stop_clears_state:
  "(process m = None \<longrightarrow> stop e m = (Inr (), m)) \<and>
   (process m \<noteq> None \<and> fst (stop e m) = Inr ()
      \<longrightarrow> process (snd (stop e m)) = None \<and> start_time (snd (stop e m)) = None) \<and>
   (process m \<noteq> None \<and> (graceful e \<or> killed e) \<longrightarrow> stop e m = (Inr (), cleared m)) \<and>
   (fst (stop e m) = Inr () \<longrightarrow> stop e' (snd (stop e m)) = (Inr (), snd (stop e m))) \<and>
   (\<not> is_running m \<longrightarrow> fst (stop e m) = Inr ()
      \<and> get_status b1 b2 clock (snd (stop e m)) = get_status b1 b2 clock m)"
  by (auto simp add: stop_def cleared_def is_running_def get_status_def manager_pid_def
      uptime_seconds_def split: option.splits)

theorem stop_clears_state_witness:
  "stop \<lparr>graceful = True, killed = True\<rparr> example_manager = (Inr (), example_manager) \<and>
   stop \<lparr>graceful = True, killed = False\<rparr> running_manager = (Inr (), example_manager) \<and>
   stop \<lparr>graceful = False, killed = True\<rparr> running_manager = (Inr (), example_manager) \<and>
   stop \<lparr>graceful = False, killed = False\<rparr> (snd (stop \<lparr>graceful = False, killed = True\<rparr> running_manager))
     = (Inr (), example_manager) \<and>
   get_status True True 200 (snd (stop \<lparr>graceful = False, killed = False\<rparr> crashed_manager))
     = get_status True True 200 crashed_manager"
  using stop_clears_state [of example_manager "\<lparr>graceful = True, killed = True\<rparr>"]
    stop_clears_state [of running_manager "\<lparr>graceful = True, killed = False\<rparr>"]
    stop_clears_state [of running_manager "\<lparr>graceful = False, killed = True\<rparr>"
      "\<lparr>graceful = False, killed = False\<rparr>"]
    stop_clears_state [of crashed_manager "\<lparr>graceful = False, killed = False\<rparr>" _ True True 200]
  by (simp add: example_manager_def running_manager_def crashed_manager_def cleared_def
      is_running_def stop_def)

text \<open>
  C4 (as the code has it).  When the child is seen to have exited at a poll
  before the deadline, all earlier polls having found it alive and not ready,
  \<open>start\<close> ends at that poll, whatever observations would follow, with a
  \<open>RuntimeError\<close> whose message is the exit code followed by the first 500
  characters of the child's stderr; the excerpt is empty exactly when the
  child wrote nothing.  The status afterwards reports not running.
\<close>

theorem start_child_exit:
  assumes "\<not> is_running m" "binary_is_file env" "model_is_file env"
    and "ticks env = pre @ t # rest" "list_all (pending (poll_start env + 120)) pre"
    and "now t < poll_start env + 120" "exit_status t = Some (rc, err)"
  shows "\<exists>m'. start env threads ctx m =
            Some (Inl (RuntimeError (''llama-server exited with code '' @ str_int rc @ '': ''
                                     @ stderr_excerpt err)), m')
          \<and> running (get_status b1 b2 clock m') = False
          \<and> stderr_excerpt err = take 500 err
          \<and> length (stderr_excerpt err) \<le> 500
          \<and> (stderr_excerpt err = []) = (err = [])"
proof -
  from start_exit [OF assms, of threads ctx] obtain m'
    where "start env threads ctx m = Some (Inl (RuntimeError (exit_message rc err)), m')"
      and "\<not> is_running m'"
    by blast
  then show ?thesis
    by (auto simp add: exit_message_def get_status_def stderr_excerpt_def)
qed

theorem start_child_exit_witness:
  "\<exists>m'. start (crash_env ''error: failed to load model'') None 4096 example_manager =
            Some (Inl (RuntimeError ''llama-server exited with code 1: error: failed to load model''), m')
          \<and> running (get_status True True 1002 m') = False"
proof -
  have h: "\<not> is_running example_manager"
    "binary_is_file (crash_env ''error: failed to load model'')"
    "model_is_file (crash_env ''error: failed to load model'')"
    "ticks (crash_env ''error: failed to load model'')
       = [refused_tick] @ \<lparr>now = 1001, exit_status = Some (1, ''error: failed to load model''),
                            health = Response 503\<rparr> # []"
    "list_all (pending (poll_start (crash_env ''error: failed to load model'') + 120)) [refused_tick]"
    "now \<lparr>now = 1001, exit_status = Some (1, ''error: failed to load model''), health = Response 503\<rparr>
       < poll_start (crash_env ''error: failed to load model'') + 120"
    "exit_status \<lparr>now = 1001, exit_status = Some (1, ''error: failed to load model''), health = Response 503\<rparr>
       = Some (1, ''error: failed to load model'')"
    by (simp_all add: is_running_def example_manager_def crash_env_def pending_def refused_tick_def)
  show ?thesis
    using start_child_exit [OF h, of None 4096 True True 1002]
    by (simp add: str_int_def str_nat.simps stderr_excerpt_def)
qed

text \<open>
  C4 (as stated) fails: a child that exits without having written to stderr
  makes \<open>start\<close> fail with an empty excerpt after the exit code.
\<close>

theorem start_child_exit_empty_excerpt_counterexample:
  "map_option fst (start (crash_env []) None 4096 example_manager)
     = Some (Inl (RuntimeError ''llama-server exited with code 1: ''))
   \<and> stderr_excerpt [] = []"
  by (simp add: start_def wait_for_ready_def crash_env_def example_manager_def is_running_def
      refused_tick_def child_exit_def exit_message_def stderr_excerpt_def str_int_def
      str_nat.simps Let_def)

section \<open>Properties of the float arithmetic\<close>







lemmas float_eval = exponent_def normalise.simps pow2_def round_half_even_def Let_def

lemma to_double_small_ints:
  "to_double 0 = Finite 0" "to_double 1 = Finite 1" "to_double 2 = Finite 2" "to_double 3 = Finite 3"
  "to_double 7 = Finite 7" "to_double 20 = Finite 20"
  unfolding to_double_def Let_def by (simp_all add: float_eval)

lemma to_double_third: "to_double (1 / 3) = Finite (6004799503160661 / 18014398509481984)"
  unfolding to_double_def Let_def by (simp add: float_eval)

lemma to_double_three_tenths: "to_double (3 / 10) = Finite (5404319552844595 / 18014398509481984)"
  unfolding to_double_def Let_def by (simp add: float_eval)

lemma to_double_seven_twentieths: "to_double (7 / 20) = Finite (3152519739159347 / 9007199254740992)"
  unfolding to_double_def Let_def by (simp add: float_eval)

lemma to_double_twentieth: "to_double (1 / 20) = Finite (3602879701896397 / 72057594037927936)"
  unfolding to_double_def Let_def by (simp add: float_eval)

lemma round_third:
  "py_round (Finite (6004799503160661 / 18014398509481984)) (Suc 0)
     = Finite (5404319552844595 / 18014398509481984)"
  unfolding py_round_def by (simp add: round_half_even_def Let_def to_double_three_tenths)

lemma round_seven_twentieths:
  "py_round (Finite (3152519739159347 / 9007199254740992)) (Suc 0) = to_double (3 / 10)"
  unfolding py_round_def by (simp add: round_half_even_def Let_def)

lemma round_twentieth:
  "py_round (Finite (3602879701896397 / 72057594037927936)) (Suc 0) = to_double (1 / 10)"
  unfolding py_round_def by (simp add: round_half_even_def Let_def)

lemma round_small:
  "py_round (Finite 0) (Suc 0) = Finite 0" "py_round (Finite 0) 2 = Finite 0"
  "py_round (Finite 2) 2 = Finite 2"
  unfolding py_round_def to_double_def Let_def by (simp_all add: float_eval)

text \<open>
  The rate as the code reports it for seven tokens, and for one token, in
  twenty seconds: 0.3 and 0.1, where rounding the exact quotients 0.35 and
  0.05 to the even digit would give 0.4 and 0.0.
\<close>

lemma rate_examples:
  "map_sum id (\<lambda>r. py_round r 1) (tokens_per_second 7 (fsub 20 0)) = Inr (to_double (3 / 10))"
  "map_sum id (\<lambda>r. py_round r 1) (tokens_per_second 1 (fsub 20 0)) = Inr (to_double (1 / 10))"
  by (simp_all add: tokens_per_second_def fsub_def int_to_float_def float_div_def
      to_double_small_ints to_double_seven_twentieths to_double_twentieth
      round_seven_twentieths round_twentieth)



section \<open>Properties of the streaming chat proxy\<close>

lemma stream_lines_shape:
  "stream_lines parse ls fin full n = (evs, r) \<Longrightarrow>
     \<exists>toks. evs = map Token toks \<and>
       (case r of Inl e \<Rightarrow> True | Inr (full', n') \<Rightarrow> n' = n + length toks \<and> full' = full @ concat toks)"
proof (induction ls arbitrary: full n evs r)
  case Nil
  then show ?case by (auto split: stream_end.splits)
next
  case (Cons line ls)
  show ?case
  proof (cases "take 6 line = ''data: ''")
    case False
    with Cons.prems have "stream_lines parse ls fin full n = (evs, r)" by simp
    from Cons.IH [OF this] show ?thesis .
  next
    case data: True
    show ?thesis
    proof (cases "strip (drop 6 line) = ''[DONE]''")
      case True
      with data Cons.prems have "evs = []" "r = Inr (full, n)" by simp_all
      then show ?thesis by simp
    next
      case notdone: False
      show ?thesis
      proof (cases "parse (drop 6 line)")
        case None
        with data notdone Cons.prems have "stream_lines parse ls fin full n = (evs, r)" by simp
        from Cons.IH [OF this] show ?thesis .
      next
        case (Some chunk)
        show ?thesis
        proof (cases "chunk_token chunk")
          case (Inl e)
          with data notdone Some Cons.prems have "evs = []" "r = Inl e" by simp_all
          then show ?thesis by simp
        next
          case (Inr token)
          show ?thesis
          proof (cases "truthy token")
            case False
            with data notdone Some Inr Cons.prems have "stream_lines parse ls fin full n = (evs, r)" by simp
            from Cons.IH [OF this] show ?thesis .
          next
            case True
            show ?thesis
            proof (cases "\<exists>s. token = JStr s")
              case False
              with True data notdone Some Inr
              have "stream_lines parse (line # ls) fin full n =
                      ([], Inl (TypeError (''can only concatenate str (not '' @ [CHR 34]
                                         @ type_name token @ [CHR 34] @ '') to str'')))"
                by (cases token) simp_all
              with Cons.prems have "evs = []" "\<exists>e. r = Inl e" by simp_all
              then show ?thesis by auto
            next
              case True
              then obtain s where s: "token = JStr s" by blast
              obtain evs' r' where rec: "stream_lines parse ls fin (full @ s) (Suc n) = (evs', r')"
                by (cases "stream_lines parse ls fin (full @ s) (Suc n)")
              with s \<open>truthy token\<close> data notdone Some Inr Cons.prems
              have e: "evs = Token s # evs'" "r = r'" by simp_all
              from Cons.IH [OF rec] obtain toks where
                t: "evs' = map Token toks"
                "(case r' of Inl e \<Rightarrow> True | Inr (full', n') \<Rightarrow> n' = Suc n + length toks \<and> full' = (full @ s) @ concat toks)"
                by blast
              have "evs = map Token (s # toks)" using e t by simp
              moreover have "(case r of Inl e \<Rightarrow> True | Inr (full', n') \<Rightarrow> n' = n + length (s # toks) \<and> full' = full @ concat (s # toks))"
                using t(2) e(2) by (auto split: sum.splits)
              ultimately show ?thesis by blast
            qed
          qed
        qed
      qed
    qed
  qed
qed

lemma filter_tokens: "filter is_token (Start i # map Token toks @ [Done j n x]) = map Token toks"
  by (induction toks) auto

lemma get_conversation_None: "(get_conversation d0 cid = None) = (find (\<lambda>row. c_id row = cid) (conversations d0) = None)"
  by (simp add: get_conversation_def split: option.splits)


lemmas stream_eval = stream_response_def example_loads_def chunk_text_def quoted_def
  token_chunk_def chunk_token_def value_get_def dict_get_def subscript0_def strip_def
  is_space_def tokens_per_second_def fsub_def int_to_float_def float_div_def
  to_double_small_ints to_double_third round_third to_double_three_tenths round_small
  save_message_def touch_conversation_def error_content_def

lemma one_token_run:
  "fst (stream_response one_token_env ''c1'' ''hello'' False talk_db)
     = [Start ''r1'', Token ''Hi'', Done ''r1'' 1 (Finite (5404319552844595 / 18014398509481984))]"
  by (simp add: stream_eval one_token_env_def talk_db_def)



text \<open>
  C5 (as the code has it).  In a run that emits \<open>Done\<close>, its token total
  is the number of \<open>Token\<close> events, and its rate is the float quotient of
  the total and the elapsed seconds (0 when the elapsed time is not positive),
  rounded to one decimal place as \<open>round\<close> does on a float.
\<close>

theorem done_token_accounting:
  assumes "fst (stream_response env cid msg is_first d0) = evs" "Done i n tps \<in> set evs"
  shows "n = length (filter is_token evs) \<and>
         (is_positive (fsub (stream_finish env) (stream_start env)) \<longrightarrow>
            (\<exists>a. int_to_float n = Inr a
               \<and> tps = py_round (float_div a (fsub (stream_finish env) (stream_start env))) 1)) \<and>
         (\<not> is_positive (fsub (stream_finish env) (stream_start env)) \<longrightarrow> tps = Finite 0)"
proof -
  obtain tk r where sl: "stream_lines (loads env) (lines env) (ending env) [] 0 = (tk, r)"
    by (cases "stream_lines (loads env) (lines env) (ending env) [] 0")
  from stream_lines_shape [OF sl] obtain toks where toks: "tk = map Token toks"
    and r: "(case r of Inl e \<Rightarrow> True | Inr (full', n') \<Rightarrow> n' = 0 + length toks \<and> full' = [] @ concat toks)"
    by blast
  show ?thesis
  proof (cases r)
    case (Inl e)
    with sl toks assms have False
      by (auto simp add: stream_response_def)
    then show ?thesis ..
  next
    case (Inr p)
    obtain full' n' where p: "p = (full', n')" by (cases p)
    with Inr r have n': "n' = length toks" by simp
    from sl Inr p toks assms
    obtain rate where rate: "tokens_per_second n' (fsub (stream_finish env) (stream_start env)) = Inr rate"
      and evs: "evs = Start (response_id env) # map Token toks @ [Done (response_id env) n' (py_round rate 1)]"
      by (auto simp add: stream_response_def split: sum.splits)
    with assms(2) have d: "n = n'" "tps = py_round rate 1"
      by auto
    have "length (filter is_token evs) = length toks"
      unfolding evs by (simp add: filter_tokens)
    with d n' rate show ?thesis
      by (auto simp add: tokens_per_second_def round_small split: if_splits sum.splits)
  qed
qed

theorem done_token_accounting_witness:
  "(1::nat) = length (filter is_token
       [Start ''r1'', Token ''Hi'', Done ''r1'' 1 (Finite (5404319552844595 / 18014398509481984))]) \<and>
   (\<exists>a. int_to_float 1 = Inr a \<and>
      Finite (5404319552844595 / 18014398509481984) = py_round (float_div a (fsub 13 10)) 1)"
proof -
  have mem: "Done ''r1'' 1 (Finite (5404319552844595 / 18014398509481984))
      \<in> set [Start ''r1'', Token ''Hi'', Done ''r1'' 1 (Finite (5404319552844595 / 18014398509481984))]"
    by simp
  have pos: "is_positive (fsub (stream_finish one_token_env) (stream_start one_token_env))"
    by (simp add: one_token_env_def fsub_def to_double_small_ints)
  show ?thesis
    using done_token_accounting [OF one_token_run mem] pos
    by (simp add: one_token_env_def)
qed

text \<open>
  C5 (as stated) fails: one token in three seconds is reported as 0.3 tokens
  per second, which is neither one third nor the float nearest to it.
\<close>

theorem done_rate_rounded_counterexample:
  "fst (stream_response one_token_env ''c1'' ''hello'' False talk_db)
     = [Start ''r1'', Token ''Hi'', Done ''r1'' 1 (Finite (5404319552844595 / 18014398509481984))]
   \<and> (5404319552844595 / 18014398509481984 :: real) \<noteq> 1 / (13 - 10)
   \<and> Finite (5404319552844595 / 18014398509481984) \<noteq> to_double (1 / (13 - 10))"
  by (simp add: one_token_run to_double_third)

section \<open>Properties of the history window\<close>

lemma insort_key_snoc:
  "f a \<le> f x \<Longrightarrow> insort_key f a (ys @ [x]) = insort_key f a ys @ [x]"
  by (induction ys) auto

lemma sort_key_snoc:
  "\<forall>y\<in>set xs. f y \<le> f x \<Longrightarrow> sort_key f (xs @ [x]) = sort_key f xs @ [x]"
proof (induction xs)
  case Nil
  then show ?case by simp
next
  case (Cons a xs)
  then have "sort_key f (xs @ [x]) = sort_key f xs @ [x]" by simp
  moreover have "f a \<le> f x" using Cons.prems by simp
  ultimately show ?case
    by (simp add: insort_key_snoc)
qed

lemma get_messages_after_save:
  assumes "20 \<le> count_messages d0 cid"
    and "\<forall>m\<in>set (messages d0). m_created_at m \<le> t"
    and "save_message enc new_id t cid r c d0 = Inr d1"
  shows "get_messages d1 cid 20 = get_messages d0 cid 20"
proof -
  define old where "old = filter (\<lambda>m. m_conversation_id m = cid) (messages d0)"
  define new where "new = \<lparr>m_id = new_id, m_conversation_id = cid, m_role = r, m_content = c,
              m_has_document = False, m_document_name = None, m_document_type = None,
              m_created_at = t\<rparr>"
  have len: "20 \<le> length (sort_key m_created_at old)"
    using assms(1) by (simp add: count_messages_def old_def)
  have le: "\<forall>y\<in>set old. m_created_at y \<le> m_created_at new"
    using assms(2) by (simp add: old_def new_def)
  have "messages d1 = messages d0 @ [new]"
    using assms(3) by (auto simp add: save_message_def touch_conversation_def new_def split: if_splits)
  then have "filter (\<lambda>m. m_conversation_id m = cid) (messages d1) = old @ [new]"
    by (simp add: old_def new_def)
  then have "get_messages d1 cid 20 = take 20 (sort_key m_created_at (old @ [new]))"
    by (simp add: get_messages_def)
  also have "\<dots> = take 20 (sort_key m_created_at old @ [new])"
    using sort_key_snoc [OF le] by simp
  also have "\<dots> = take 20 (sort_key m_created_at old)"
    using len by simp
  finally show ?thesis by (simp add: get_messages_def old_def)
qed

lemma get_messages_subset: "set (get_messages d0 cid k) \<subseteq> set (messages d0)"
proof -
  have "set (take k (sort_key m_created_at (filter (\<lambda>m. m_conversation_id m = cid) (messages d0))))
          \<subseteq> set (sort_key m_created_at (filter (\<lambda>m. m_conversation_id m = cid) (messages d0)))"
    by (rule set_take_subset)
  then show ?thesis by (auto simp add: get_messages_def)
qed

lemma chat_sent:
  assumes "get_conversation d0 (req_conversation_id request) = Some conv" "is_running llama"
    and "encodable env (req_message request)"
  shows "\<exists>r d1. save_message (encodable env) (user_message_id env) (user_message_time env)
                   (req_conversation_id request) ''user'' (req_message request) d0 = Inr d1
           \<and> chat env llama request d0 = Inr r
           \<and> sent_messages r = build_messages (req_system_prompt request)
                 (get_messages d1 (req_conversation_id request) 20)"
proof -
  have "find (\<lambda>row. c_id row = req_conversation_id request) (conversations d0) \<noteq> None"
    using assms(1) get_conversation_None [of d0 "req_conversation_id request"] by simp
  then obtain d1 where d1: "save_message (encodable env) (user_message_id env) (user_message_time env)
                   (req_conversation_id request) ''user'' (req_message request) d0 = Inr d1"
    using assms(3) by (simp add: save_message_def)
  then show ?thesis
    using assms(1,2) by (simp add: chat_def Let_def split: prod.splits)
qed

lemma long_db_conv: "get_conversation long_db ''c1'' \<noteq> None"
  by (simp add: get_conversation_def long_db_def)

lemma long_db_count: "count_messages long_db ''c1'' = 20"
  by (simp add: count_messages_def long_db_def history_message_def)

lemma long_db_times: "\<forall>m\<in>set (messages long_db). m_created_at m \<le> 100"
  by (auto simp add: long_db_def history_message_def)

lemma long_db_contents: "\<forall>m\<in>set (messages long_db). m_content m \<noteq> ''newest question''"
  by (auto simp add: long_db_def history_message_def)

lemma long_db_window: "length (get_messages long_db ''c1'' 20) = 20"
  using long_db_count by (simp add: get_messages_def count_messages_def)

text \<open>
  C8 (the code at the failing input).  With twenty messages already stored,
  the request that \<open>chat\<close> builds for the twenty-first holds the system
  entry and the twenty oldest messages; the question just saved is not in it.
\<close>

theorem chat_drops_newest_message:
  "case chat (one_token_env\<lparr>user_message_time := 100\<rparr>) running_manager newest_request long_db of
     Inl e \<Rightarrow> False
   | Inr r \<Rightarrow> length (sent_messages r) = 21
       \<and> \<lparr>role = ''user'', content = ''newest question''\<rparr> \<notin> set (sent_messages r)"
proof -
  define env where "env = one_token_env\<lparr>user_message_time := 100\<rparr>"
  have t: "user_message_time env = 100" by (simp add: env_def)
  have enc: "encodable env (req_message newest_request)"
    by (simp add: env_def one_token_env_def)
  obtain conv where conv: "get_conversation long_db (req_conversation_id newest_request) = Some conv"
    using long_db_conv by (auto simp add: newest_request_def)
  have run: "is_running running_manager"
    by (simp add: is_running_def running_manager_def example_manager_def)
  from chat_sent [OF conv run enc] obtain r d1
    where sv: "save_message (encodable env) (user_message_id env) (user_message_time env)
                 (req_conversation_id newest_request) ''user'' (req_message newest_request) long_db
                 = Inr d1"
      and r: "chat env running_manager newest_request long_db = Inr r"
      and s: "sent_messages r = build_messages (req_system_prompt newest_request)
                (get_messages d1 (req_conversation_id newest_request) 20)"
    by blast
  have "get_messages d1 ''c1'' 20 = get_messages long_db ''c1'' 20"
  proof (rule get_messages_after_save)
    show "20 \<le> count_messages long_db ''c1''" by (simp add: long_db_count)
    show "\<forall>m\<in>set (messages long_db). m_created_at m \<le> 100" by (rule long_db_times)
    show "save_message (encodable env) (user_message_id env) 100 ''c1'' ''user''
            ''newest question'' long_db = Inr d1"
      using sv t by (simp add: newest_request_def)
  qed
  with s have s': "sent_messages r = build_messages None (get_messages long_db ''c1'' 20)"
    by (simp add: newest_request_def)
  have "\<forall>m\<in>set (get_messages long_db ''c1'' 20). m_content m \<noteq> ''newest question''"
    using get_messages_subset [of long_db "''c1''" 20] long_db_contents by blast
  then have "\<lparr>role = ''user'', content = ''newest question''\<rparr> \<notin> set (sent_messages r)"
    unfolding s' by (auto simp add: build_messages_def default_system_prompt_def)
  moreover have "length (sent_messages r) = 21"
    unfolding s' by (simp add: build_messages_def long_db_window)
  ultimately show ?thesis
    using r unfolding env_def by simp
qed

section \<open>Properties of document ingestion\<close>

lemma find_snoc:
  "find P (xs @ [x]) = (case find P xs of Some y \<Rightarrow> Some y | None \<Rightarrow> if P x then Some x else None)"
  by (induction xs) auto

lemma document_cache_auto_unload: "document_cache (db (auto_unload s)) = document_cache (db s)"
  by (simp add: auto_unload_def log_model_event_def)

lemma is_loaded_auto_unload: "\<not> is_loaded (florence (auto_unload s))"
  by (simp add: auto_unload_def unload_def)

lemma upload_hit:
  assumes "get_cached_document (db s) (compute_file_hash l file_data) = Some c"
  shows "upload_document l env file_data file_name s =
           (Inr \<lparr>document_id = d_id c, original_name = d_original_name c, pages = None,
                  extracted_text = d_extracted_text c, extraction_method = d_extraction_method c,
                  metadata = d_metadata c, cached = True,
                  processing_time_seconds = py_round (fsub (upload_finish env) (upload_start env)) 2\<rparr>, s)"
  using assms by (simp add: upload_document_def Let_def)

lemma cache_document_miss:
  assumes "get_cached_document d0 h = None"
  shows "cache_document new_id t h name text method meta d0 =
           Inr (\<lparr>d_id = new_id, d_file_hash = h, d_original_name = name,
                  d_extracted_text = text, d_extraction_method = method,
                  d_metadata = meta, d_created_at = t\<rparr>,
                d0\<lparr>document_cache := document_cache d0 @
                   [\<lparr>d_id = new_id, d_file_hash = h, d_original_name = name,
                     d_extracted_text = text, d_extraction_method = method,
                     d_metadata = meta, d_created_at = t\<rparr>]\<rparr>)"
  using assms by (simp add: cache_document_def get_cached_document_def Let_def)

lemma upload_miss:
  assumes miss: "get_cached_document (db s) (compute_file_hash l file_data) = None"
  shows "upload_document l env file_data file_name s =
     (case extract_document l (file_ext_of (effective_filename file_name)) file_data (florence s) of
        (Inl e, f1) \<Rightarrow>
          (Inl (if is_http_exception e then e
                else HTTPException 500 (''Failed to process document: '' @ exc_str e)),
           auto_unload (s\<lparr>florence := f1\<rparr>))
      | (Inr (text, method, meta), f1) \<Rightarrow>
          (Inr \<lparr>document_id = new_document_id env, original_name = effective_filename file_name,
                 pages = Some (dict_get meta ''pages'' (JInt 1)),
                 extracted_text = text, extraction_method = method,
                 metadata = meta, cached = False,
                 processing_time_seconds = py_round (fsub (upload_finish env) (upload_start env)) 2\<rparr>,
           (auto_unload (s\<lparr>florence := f1\<rparr>))\<lparr>db :=
              (db (auto_unload (s\<lparr>florence := f1\<rparr>)))\<lparr>document_cache :=
                 document_cache (db s) @
                   [\<lparr>d_id = new_document_id env, d_file_hash = compute_file_hash l file_data,
                     d_original_name = effective_filename file_name,
                     d_extracted_text = text, d_extraction_method = method,
                     d_metadata = meta, d_created_at = cache_time env\<rparr>]\<rparr>\<rparr>))"
proof -
  have m: "\<And>f1. get_cached_document (db (auto_unload (s\<lparr>florence := f1\<rparr>))) (compute_file_hash l file_data) = None"
    using miss by (simp add: get_cached_document_def document_cache_auto_unload)
  show ?thesis
    using miss
    by (simp add: upload_document_def Let_def cache_document_miss [OF m] document_cache_auto_unload
        split: prod.splits sum.splits)
qed

lemma upload_miss_unloaded:
  assumes "get_cached_document (db s) (compute_file_hash l file_data) = None"
  shows "\<not> is_loaded (florence (snd (upload_document l env file_data file_name s)))"
  by (simp add: upload_miss [OF assms] is_loaded_auto_unload split: prod.splits sum.splits)

lemma upload_miss_success:
  assumes miss: "get_cached_document (db s) (compute_file_hash l file_data) = None"
    and ok: "upload_document l env file_data file_name s = (Inr r, s1)"
  shows "cached r = False" "original_name r = effective_filename file_name"
    "get_cached_document (db s1) (compute_file_hash l file_data) =
       Some \<lparr>d_id = document_id r, d_file_hash = compute_file_hash l file_data,
              d_original_name = effective_filename file_name,
              d_extracted_text = extracted_text r, d_extraction_method = extraction_method r,
              d_metadata = metadata r, d_created_at = cache_time env\<rparr>"
    "\<And>h. h \<noteq> compute_file_hash l file_data \<Longrightarrow> get_cached_document (db s1) h = get_cached_document (db s) h"
proof -
  obtain res f1 where ex: "extract_document l (file_ext_of (effective_filename file_name)) file_data (florence s) = (res, f1)"
    by (cases "extract_document l (file_ext_of (effective_filename file_name)) file_data (florence s)")
  with ok upload_miss [OF miss, of env file_name] obtain body meth meta where res: "res = Inr (body, meth, meta)"
    by (cases res) (auto split: prod.splits)
  from ok upload_miss [OF miss, of env file_name] ex res
  have r: "r = \<lparr>document_id = new_document_id env, original_name = effective_filename file_name,
                 pages = Some (dict_get meta ''pages'' (JInt 1)),
                 extracted_text = body, extraction_method = meth,
                 metadata = meta, cached = False,
                 processing_time_seconds = py_round (fsub (upload_finish env) (upload_start env)) 2\<rparr>"
    and s1: "document_cache (db s1) = document_cache (db s) @
                   [\<lparr>d_id = new_document_id env, d_file_hash = compute_file_hash l file_data,
                     d_original_name = effective_filename file_name,
                     d_extracted_text = body, d_extraction_method = meth,
                     d_metadata = meta, d_created_at = cache_time env\<rparr>]"
    by auto
  show "cached r = False" "original_name r = effective_filename file_name"
    using r by simp_all
  show "get_cached_document (db s1) (compute_file_hash l file_data) =
       Some \<lparr>d_id = document_id r, d_file_hash = compute_file_hash l file_data,
              d_original_name = effective_filename file_name,
              d_extracted_text = extracted_text r, d_extraction_method = extraction_method r,
              d_metadata = metadata r, d_created_at = cache_time env\<rparr>"
    using miss r s1 by (simp add: get_cached_document_def find_snoc)
  show "\<And>h. h \<noteq> compute_file_hash l file_data \<Longrightarrow> get_cached_document (db s1) h = get_cached_document (db s) h"
    using s1 by (simp add: get_cached_document_def find_snoc split: option.splits)
qed

lemmas ex_defs = hi_bytes_def ok_bytes_def text_pdf_bytes_def scan_pdf_bytes_def png_bytes_def
  example_digest_def
  example_pages_def example_generate_def example_libs_def idle_libs_def initial_server_def
  first_upload_env_def second_upload_env_def

lemmas up_defs = upload_document_def compute_file_hash_def effective_filename_def file_ext_of_def
  lower_def lower_char_def get_cached_document_def extract_document_def image_extensions_def
  cache_document_def auto_unload_def unload_def log_model_event_def dict_get_def fsub_def
  to_double_small_ints round_small Let_def

lemma first_upload:
  "upload_document example_libs first_upload_env hi_bytes (Some ''notes.txt'') initial_server
     = (Inr hi_result, hi_server)"
  by (simp add: up_defs ex_defs hi_server_def hi_record_def hi_result_def)

lemma same_digest: "sha256_hexdigest l' = sha256_hexdigest l \<Longrightarrow> compute_file_hash l' b = compute_file_hash l b"
  by (simp add: compute_file_hash_def)

lemma second_upload_hits:
  assumes up: "upload_document l env1 file_data name1 s = (Inr r1, s1)"
    and dig: "sha256_hexdigest l' = sha256_hexdigest l"
  shows "\<exists>c. get_cached_document (db s1) (compute_file_hash l file_data) = Some c
           \<and> d_extracted_text c = extracted_text r1 \<and> d_original_name c = original_name r1
           \<and> upload_document l' env2 file_data name2 s1 =
               (Inr \<lparr>document_id = d_id c, original_name = d_original_name c, pages = None,
                  extracted_text = d_extracted_text c, extraction_method = d_extraction_method c,
                  metadata = d_metadata c, cached = True,
                  processing_time_seconds = py_round (fsub (upload_finish env2) (upload_start env2)) 2\<rparr>, s1)"
proof (cases "get_cached_document (db s) (compute_file_hash l file_data)")
  case (Some c)
  from up upload_hit [OF Some, of env1 name1]
  have "s1 = s" "extracted_text r1 = d_extracted_text c" "original_name r1 = d_original_name c" by auto
  moreover from Some have "get_cached_document (db s) (compute_file_hash l' file_data) = Some c"
    by (simp add: same_digest [OF dig])
  ultimately show ?thesis
    using Some upload_hit [of s l' file_data c env2 name2] by simp
next
  case None
  from upload_miss_success [OF None up]
  obtain c where c: "get_cached_document (db s1) (compute_file_hash l file_data) = Some c"
    "d_extracted_text c = extracted_text r1" "d_original_name c = original_name r1"
    by simp
  from c(1) have "get_cached_document (db s1) (compute_file_hash l' file_data) = Some c"
    by (simp add: same_digest [OF dig])
  from upload_hit [OF this, of env2 name2] c show ?thesis by simp
qed

lemma upload_twice:
  "(upload_document l env1 file_data name1 s = (Inr r1, s1) \<and> sha256_hexdigest l' = sha256_hexdigest l
      \<longrightarrow> (\<exists>r2. upload_document l' env2 file_data name2 s1 = (Inr r2, s1)
              \<and> cached r2 \<and> extracted_text r2 = extracted_text r1))
   \<and> (get_cached_document (db s) (compute_file_hash l data_a) = None
      \<and> get_cached_document (db s) (compute_file_hash l data_b) = None
      \<and> compute_file_hash l data_a \<noteq> compute_file_hash l data_b
      \<and> upload_document l env_a data_a name_a s = (Inr r_a, s_a)
      \<and> upload_document l env_b data_b name_b s_a = (Inr r_b, s_b)
      \<longrightarrow> \<not> cached r_a \<and> \<not> cached r_b
        \<and> map_option d_extracted_text (get_cached_document (db s_b) (compute_file_hash l data_a))
            = Some (extracted_text r_a)
        \<and> map_option d_extracted_text (get_cached_document (db s_b) (compute_file_hash l data_b))
            = Some (extracted_text r_b))"
proof (rule conjI; rule impI)
  assume "upload_document l env1 file_data name1 s = (Inr r1, s1) \<and> sha256_hexdigest l' = sha256_hexdigest l"
  then have up: "upload_document l env1 file_data name1 s = (Inr r1, s1)"
    and dig: "sha256_hexdigest l' = sha256_hexdigest l" by simp_all
  from second_upload_hits [OF up dig, of env2 name2]
  show "\<exists>r2. upload_document l' env2 file_data name2 s1 = (Inr r2, s1)
              \<and> cached r2 \<and> extracted_text r2 = extracted_text r1"
    by auto
next
  assume a: "get_cached_document (db s) (compute_file_hash l data_a) = None
      \<and> get_cached_document (db s) (compute_file_hash l data_b) = None
      \<and> compute_file_hash l data_a \<noteq> compute_file_hash l data_b
      \<and> upload_document l env_a data_a name_a s = (Inr r_a, s_a)
      \<and> upload_document l env_b data_b name_b s_a = (Inr r_b, s_b)"
  then have ma: "get_cached_document (db s) (compute_file_hash l data_a) = None"
    and mb: "get_cached_document (db s) (compute_file_hash l data_b) = None"
    and ne: "compute_file_hash l data_a \<noteq> compute_file_hash l data_b"
    and ua: "upload_document l env_a data_a name_a s = (Inr r_a, s_a)"
    and ub: "upload_document l env_b data_b name_b s_a = (Inr r_b, s_b)"
    by simp_all
  note A = upload_miss_success [OF ma ua]
  from A(4) [of "compute_file_hash l data_b"] ne mb
  have mb': "get_cached_document (db s_a) (compute_file_hash l data_b) = None" by simp
  note B = upload_miss_success [OF mb' ub]
  from B(4) [of "compute_file_hash l data_a"] ne A(3)
  have "map_option d_extracted_text (get_cached_document (db s_b) (compute_file_hash l data_a))
            = Some (extracted_text r_a)" by simp
  moreover from B(3)
  have "map_option d_extracted_text (get_cached_document (db s_b) (compute_file_hash l data_b))
            = Some (extracted_text r_b)" by simp
  ultimately show "\<not> cached r_a \<and> \<not> cached r_b
        \<and> map_option d_extracted_text (get_cached_document (db s_b) (compute_file_hash l data_a))
            = Some (extracted_text r_a)
        \<and> map_option d_extracted_text (get_cached_document (db s_b) (compute_file_hash l data_b))
            = Some (extracted_text r_b)"
    using A(1) B(1) by simp
qed

lemma extraction_success_cached:
  "get_cached_document (db s) (compute_file_hash l file_data) = None
     \<and> fst (extract_document l (file_ext_of (effective_filename name1)) file_data (florence s))
           = Inr (body, meth, meta)
   \<longrightarrow> (\<exists>r1. fst (upload_document l env1 file_data name1 s) = Inr r1 \<and> \<not> cached r1
          \<and> extracted_text r1 = body
          \<and> map_option d_extracted_text
                (get_cached_document (db (snd (upload_document l env1 file_data name1 s)))
                   (compute_file_hash l file_data)) = Some body)"
proof (rule impI)
  assume a: "get_cached_document (db s) (compute_file_hash l file_data) = None
     \<and> fst (extract_document l (file_ext_of (effective_filename name1)) file_data (florence s))
           = Inr (body, meth, meta)"
  then have miss: "get_cached_document (db s) (compute_file_hash l file_data) = None" by simp
  obtain res f1 where ex: "extract_document l (file_ext_of (effective_filename name1)) file_data (florence s) = (res, f1)"
    by (cases "extract_document l (file_ext_of (effective_filename name1)) file_data (florence s)")
  with a have res: "res = Inr (body, meth, meta)" by simp
  obtain r1 s1 where up: "upload_document l env1 file_data name1 s = (Inr r1, s1)"
    and body: "extracted_text r1 = body"
    using upload_miss [OF miss, of env1 name1] ex res by simp
  from upload_miss_success [OF miss up] body up
  show "\<exists>r1. fst (upload_document l env1 file_data name1 s) = Inr r1 \<and> \<not> cached r1
          \<and> extracted_text r1 = body
          \<and> map_option d_extracted_text
                (get_cached_document (db (snd (upload_document l env1 file_data name1 s)))
                   (compute_file_hash l file_data)) = Some body"
    by simp
qed

lemma extraction_failure_not_cached:
  "get_cached_document (db s) (compute_file_hash l file_data) = None
     \<and> fst (extract_document l (file_ext_of (effective_filename name1)) file_data (florence s)) = Inl e
   \<longrightarrow> isl (fst (upload_document l env1 file_data name1 s))
       \<and> document_cache (db (snd (upload_document l env1 file_data name1 s))) = document_cache (db s)"
proof (rule impI)
  assume a: "get_cached_document (db s) (compute_file_hash l file_data) = None
     \<and> fst (extract_document l (file_ext_of (effective_filename name1)) file_data (florence s)) = Inl e"
  then have miss: "get_cached_document (db s) (compute_file_hash l file_data) = None" by simp
  obtain res f1 where ex: "extract_document l (file_ext_of (effective_filename name1)) file_data (florence s) = (res, f1)"
    by (cases "extract_document l (file_ext_of (effective_filename name1)) file_data (florence s)")
  with a have res: "res = Inl e" by simp
  show "isl (fst (upload_document l env1 file_data name1 s))
       \<and> document_cache (db (snd (upload_document l env1 file_data name1 s))) = document_cache (db s)"
    using ex res by (simp add: upload_miss [OF miss] document_cache_auto_unload)
qed

text \<open>
  C2 (as the code has it).  Once an upload of some bytes has returned a
  result, a second upload of the same bytes, under any filename and whatever
  the extraction libraries would do, returns the cached record with
  \<open>cached = True\<close> and the same extracted text, and leaves the server state
  as it was.  An upload that misses the cache returns a result, with
  \<open>cached = False\<close>, and stores it exactly when its extraction succeeds; a
  failed extraction caches nothing.  Two uploads whose digests differ and are
  not in the cache, when both return a result, are both extracted
  (\<open>cached = False\<close>), and afterwards each digest retrieves the text of its
  own upload.
\<close>

theorem identical_bytes_extracted_once:
  "(upload_document l env_p file_data name_p s = (Inr r_p, s_p) \<and> sha256_hexdigest l' = sha256_hexdigest l
      \<longrightarrow> (\<exists>r2. upload_document l' env_q file_data name_q s_p = (Inr r2, s_p)
              \<and> cached r2 \<and> extracted_text r2 = extracted_text r_p))
   \<and> (get_cached_document (db s) (compute_file_hash l file_data) = None
        \<and> fst (extract_document l (file_ext_of (effective_filename name_p)) file_data (florence s))
              = Inr (body, meth, meta)
      \<longrightarrow> (\<exists>r_p. fst (upload_document l env_p file_data name_p s) = Inr r_p \<and> \<not> cached r_p
             \<and> extracted_text r_p = body
             \<and> map_option d_extracted_text
                   (get_cached_document (db (snd (upload_document l env_p file_data name_p s)))
                      (compute_file_hash l file_data)) = Some body))
   \<and> (get_cached_document (db s) (compute_file_hash l file_data) = None
        \<and> fst (extract_document l (file_ext_of (effective_filename name_p)) file_data (florence s)) = Inl e
      \<longrightarrow> isl (fst (upload_document l env_p file_data name_p s))
          \<and> document_cache (db (snd (upload_document l env_p file_data name_p s))) = document_cache (db s))
   \<and> (get_cached_document (db s) (compute_file_hash l data_a) = None
      \<and> get_cached_document (db s) (compute_file_hash l data_b) = None
      \<and> compute_file_hash l data_a \<noteq> compute_file_hash l data_b
      \<and> upload_document l env_a data_a name_a s = (Inr r_a, s_a)
      \<and> upload_document l env_b data_b name_b s_a = (Inr r_b, s_b)
      \<longrightarrow> \<not> cached r_a \<and> \<not> cached r_b
        \<and> map_option d_extracted_text (get_cached_document (db s_b) (compute_file_hash l data_a))
            = Some (extracted_text r_a)
        \<and> map_option d_extracted_text (get_cached_document (db s_b) (compute_file_hash l data_b))
            = Some (extracted_text r_b))"
  apply (intro conjI)
     apply (rule upload_twice [THEN conjunct1])
    apply (rule extraction_success_cached)
   apply (rule extraction_failure_not_cached)
  apply (rule upload_twice [THEN conjunct2])
  done

text \<open>
  C10.  On a cache hit the returned \<open>original_name\<close> is the one of the cached
  record, whatever filename the request carries, and the state is returned
  unchanged; after a first upload under one name, a second upload of the same
  bytes under any other name returns the first name, and the cached record
  still holds it.
\<close>

theorem cache_hit_returns_first_name:
  "(get_cached_document (db s) (compute_file_hash l file_data) = Some c
      \<longrightarrow> (\<exists>r. upload_document l env file_data name s = (Inr r, s) \<and> cached r
               \<and> original_name r = d_original_name c))
   \<and> (get_cached_document (db s) (compute_file_hash l file_data) = None
      \<and> upload_document l env1 file_data name1 s = (Inr r1, s1)
      \<and> sha256_hexdigest l' = sha256_hexdigest l
      \<longrightarrow> (\<exists>r2. upload_document l' env2 file_data name2 s1 = (Inr r2, s1) \<and> cached r2
              \<and> original_name r2 = effective_filename name1
              \<and> map_option d_original_name (get_cached_document (db s1) (compute_file_hash l file_data))
                  = Some (effective_filename name1)))"
proof (rule conjI; rule impI)
  assume "get_cached_document (db s) (compute_file_hash l file_data) = Some c"
  from upload_hit [OF this, of env name]
  show "\<exists>r. upload_document l env file_data name s = (Inr r, s) \<and> cached r
               \<and> original_name r = d_original_name c"
    by simp
next
  assume "get_cached_document (db s) (compute_file_hash l file_data) = None
      \<and> upload_document l env1 file_data name1 s = (Inr r1, s1)
      \<and> sha256_hexdigest l' = sha256_hexdigest l"
  then have miss: "get_cached_document (db s) (compute_file_hash l file_data) = None"
    and up: "upload_document l env1 file_data name1 s = (Inr r1, s1)"
    and dig: "sha256_hexdigest l' = sha256_hexdigest l" by simp_all
  from upload_miss_success(2) [OF miss up] have n: "original_name r1 = effective_filename name1" .
  from second_upload_hits [OF up dig, of env2 name2] n
  show "\<exists>r2. upload_document l' env2 file_data name2 s1 = (Inr r2, s1) \<and> cached r2
              \<and> original_name r2 = effective_filename name1
              \<and> map_option d_original_name (get_cached_document (db s1) (compute_file_hash l file_data))
                  = Some (effective_filename name1)"
    by auto
qed

text \<open>
  C3 (as the code has it).  After an upload that misses the cache, whether it
  succeeds or fails, the vision gate is not loaded.  An upload that hits the
  cache returns before the cleanup and leaves the whole state, the gate
  included, as it was.
\<close>

theorem gate_unloaded_after_miss:
  "(get_cached_document (db s) (compute_file_hash l file_data) = None
      \<longrightarrow> \<not> is_loaded (florence (snd (upload_document l env file_data name s))))
   \<and> (get_cached_document (db s) (compute_file_hash l file_data) \<noteq> None
      \<longrightarrow> snd (upload_document l env file_data name s) = s)"
  using upload_miss_unloaded [of s l file_data env name] upload_hit [of s l file_data _ env name]
  by auto

lemma next_upload:
  "upload_document example_libs second_upload_env ok_bytes None hi_server = (Inr ok_result, both_server)"
  by (simp add: up_defs ex_defs hi_server_def hi_record_def both_server_def ok_record_def ok_result_def)

lemma initial_misses:
  "get_cached_document (db initial_server) (compute_file_hash example_libs b) = None"
  by (simp add: get_cached_document_def initial_server_def)

lemma example_digests_differ:
  "compute_file_hash example_libs hi_bytes \<noteq> compute_file_hash example_libs ok_bytes"
  by (simp add: compute_file_hash_def ex_defs)

lemma idle_digest: "sha256_hexdigest idle_libs = sha256_hexdigest example_libs"
  by (simp add: idle_libs_def)

theorem cache_hit_returns_first_name_witness:
  "(\<exists>r2. upload_document idle_libs second_upload_env hi_bytes (Some ''copy.md'') hi_server = (Inr r2, hi_server)
          \<and> cached r2 \<and> original_name r2 = ''notes.txt'')
   \<and> (\<exists>r. upload_document example_libs second_upload_env hi_bytes None hi_server = (Inr r, hi_server)
          \<and> cached r \<and> original_name r = ''notes.txt'')"
proof -
  have hit: "get_cached_document (db hi_server) (compute_file_hash example_libs hi_bytes) = Some hi_record"
    by (simp add: get_cached_document_def hi_server_def hi_record_def compute_file_hash_def ex_defs)
  show ?thesis
    using cache_hit_returns_first_name [of initial_server example_libs hi_bytes _ _ _
        first_upload_env "Some ''notes.txt''" hi_result hi_server idle_libs second_upload_env "Some ''copy.md''"]
      cache_hit_returns_first_name [of hi_server example_libs hi_bytes hi_record second_upload_env None]
      first_upload initial_misses idle_digest hit
    by (simp add: effective_filename_def hi_record_def)
qed

lemma docx_named_upload:
  "upload_document example_libs first_upload_env hi_bytes (Some ''a.docx'') initial_server
     = (Inl (HTTPException 500 ''Failed to process document: File is not a zip file''), initial_server)"
  by (simp add: up_defs ex_defs)

theorem identical_bytes_extracted_once_witness:
  "(\<exists>r2. upload_document idle_libs second_upload_env hi_bytes (Some ''copy.md'')
            (snd (upload_document example_libs first_upload_env hi_bytes (Some ''notes.txt'') initial_server))
          = (Inr r2, snd (upload_document example_libs first_upload_env hi_bytes (Some ''notes.txt'')
                            initial_server))
          \<and> cached r2 \<and> extracted_text r2 = ''Hi'')
   \<and> (\<exists>r1. fst (upload_document example_libs first_upload_env hi_bytes (Some ''notes.txt'') initial_server)
            = Inr r1 \<and> \<not> cached r1 \<and> extracted_text r1 = ''Hi'')
   \<and> document_cache (db (snd (upload_document example_libs first_upload_env hi_bytes (Some ''a.docx'')
                                  initial_server))) = []
   \<and> map_option d_extracted_text
         (get_cached_document
            (db (snd (upload_document example_libs second_upload_env ok_bytes None
                        (snd (upload_document example_libs first_upload_env hi_bytes (Some ''notes.txt'')
                                initial_server)))))
            (compute_file_hash example_libs hi_bytes)) = Some ''Hi''
   \<and> map_option d_extracted_text
         (get_cached_document
            (db (snd (upload_document example_libs second_upload_env ok_bytes None
                        (snd (upload_document example_libs first_upload_env hi_bytes (Some ''notes.txt'')
                                initial_server)))))
            (compute_file_hash example_libs ok_bytes)) = Some ''OK''"
proof -
  have plain: "fst (extract_document example_libs (file_ext_of (effective_filename (Some ''notes.txt'')))
                 hi_bytes (florence initial_server)) = Inr (''Hi'', ''plaintext'', [])"
    by (simp add: extract_document_def effective_filename_def file_ext_of_def lower_def
        lower_char_def image_extensions_def ex_defs)
  have docx: "fst (extract_document example_libs (file_ext_of (effective_filename (Some ''a.docx'')))
                 hi_bytes (florence initial_server)) = Inl (OtherException ''File is not a zip file'')"
    by (simp add: extract_document_def effective_filename_def file_ext_of_def lower_def
        lower_char_def image_extensions_def ex_defs)
  show ?thesis
    using identical_bytes_extracted_once [where l = example_libs and env_p = first_upload_env
        and file_data = hi_bytes and name_p = "Some ''notes.txt''" and s = initial_server
        and r_p = hi_result and s_p = hi_server and l' = idle_libs and env_q = second_upload_env
        and name_q = "Some ''copy.md''" and body = "''Hi''" and meth = "''plaintext''" and meta = "[]"
        and data_a = hi_bytes and data_b = ok_bytes and env_a = first_upload_env
        and name_a = "Some ''notes.txt''" and r_a = hi_result and s_a = hi_server
        and env_b = second_upload_env and name_b = None and r_b = ok_result and s_b = both_server]
      identical_bytes_extracted_once [where l = example_libs and env_p = first_upload_env
        and file_data = hi_bytes and name_p = "Some ''a.docx''" and s = initial_server
        and e = "OtherException ''File is not a zip file''"]
      first_upload next_upload initial_misses example_digests_differ idle_digest plain docx
    by (simp add: hi_result_def ok_result_def initial_server_def)
qed

text \<open>
  C2 (as stated) fails: the bytes are first uploaded under a name ending in
  \<open>.docx\<close>, where their extraction fails and nothing is cached; the same
  bytes uploaded again as \<open>.txt\<close> are extracted, and the second call
  returns \<open>cached = False\<close>.
\<close>

theorem failed_first_upload_counterexample:
  "fst (upload_document example_libs first_upload_env hi_bytes (Some ''a.docx'') initial_server)
     = Inl (HTTPException 500 ''Failed to process document: File is not a zip file'')
   \<and> map_sum id cached
       (fst (upload_document example_libs second_upload_env hi_bytes (Some ''a.txt'')
               (snd (upload_document example_libs first_upload_env hi_bytes (Some ''a.docx'')
                       initial_server))))
     = Inr False"
  by (simp add: docx_named_upload) (simp add: up_defs ex_defs)

theorem gate_unloaded_after_miss_witness:
  "\<not> is_loaded (florence (snd (upload_document example_libs first_upload_env scan_pdf_bytes
                                   (Some ''scan.pdf'') initial_server)))
   \<and> \<not> is_loaded (florence (snd (upload_document example_libs first_upload_env png_bytes
                                   (Some ''photo.png'') initial_server)))
   \<and> snd (upload_document example_libs second_upload_env hi_bytes (Some ''copy.md'') hi_server) = hi_server"
proof -
  have hit: "get_cached_document (db hi_server) (compute_file_hash example_libs hi_bytes) \<noteq> None"
    by (simp add: get_cached_document_def hi_server_def hi_record_def compute_file_hash_def ex_defs)
  show ?thesis
    using gate_unloaded_after_miss [of initial_server example_libs scan_pdf_bytes first_upload_env "Some ''scan.pdf''"]
      gate_unloaded_after_miss [of initial_server example_libs png_bytes first_upload_env "Some ''photo.png''"]
      gate_unloaded_after_miss [of hi_server example_libs hi_bytes second_upload_env "Some ''copy.md''"]
      initial_misses hit
    by simp
qed

text \<open>
  C3 (as stated) fails: a file is uploaded, the vision engine is then loaded
  through \<open>start_model\<close>, and the same file is uploaded again; the second
  call hits the cache and returns with the gate still loaded.
\<close>

theorem gate_left_loaded_counterexample:
  "is_loaded (florence (snd (upload_document example_libs second_upload_env hi_bytes (Some ''copy.md'')
      (snd (start_florence example_libs
         (snd (upload_document example_libs first_upload_env hi_bytes (Some ''notes.txt'')
                 initial_server)))))))"
  by (simp add: first_upload)
     (simp add: up_defs ex_defs hi_server_def hi_record_def start_florence_def load_def)

lemma png_upload:
  "map_sum id extraction_method
     (fst (upload_document example_libs first_upload_env png_bytes (Some ''photo.png'') initial_server))
     = Inr ''florence2''"
  by (simp add: up_defs ex_defs process_image_def load_def extract_ocr_text_def
      extract_caption_text_def join_labels_def fmt_def)

text \<open>
  No PDF that misses the cache is classified: \<open>_is_scanned_pdf\<close> asks the
  closed document for its length, the library raises, and the upload fails.
\<close>

lemma pdf_upload_never_classified:
  assumes "get_cached_document (db s) (compute_file_hash l file_data) = None"
    and "file_ext_of (effective_filename name) = ''pdf''"
  shows "isl (fst (upload_document l env file_data name s))"
  using assms(2)
  by (simp add: upload_miss [OF assms(1)] extract_document_def is_scanned_pdf_def
      len_closed_document_def split: sum.splits prod.splits)

text \<open>
  C6 (the code at the failing input).  A two-page PDF with 66 characters of
  text on each page, and a one-page PDF without text, both new to the cache:
  each upload ends in the 500 that reports the closed document, so neither
  the text path nor the vision path is chosen.
\<close>

theorem pdf_upload_document_closed:
  "fst (upload_document example_libs first_upload_env text_pdf_bytes (Some ''Report.PDF'') initial_server)
     = Inl (HTTPException 500 ''Failed to process document: document closed'')
   \<and> fst (upload_document example_libs first_upload_env scan_pdf_bytes (Some ''scan.pdf'') initial_server)
     = Inl (HTTPException 500 ''Failed to process document: document closed'')"
  by (simp add: up_defs ex_defs is_scanned_pdf_def len_closed_document_def)

end
